theory Spec2Isabelle
  imports Main "HOL-Library.Word"
begin

section \<open>polygon-cli, package cdk: a shallow embedding\<close>

text \<open>
  The Go package \<^verbatim>\<open>cdk\<close> reads the state of on-chain contracts through handles
  (abigen bindings behind an interface) and prints snapshots of it. The embedding makes
  the effects of the Go code explicit:
  \<^item> the chain (and everything else a network call can depend on or change) is a state of
    an arbitrary type \<open>'s\<close>; a read through a handle takes the state and returns the new
    one together with either an error or the value read;
  \<^item> a Go result pair \<^verbatim>\<open>(*T, error)\<close> is a pair of options: \<open>None\<close> is \<^verbatim>\<open>nil\<close>;
  \<^item> \<^verbatim>\<open>log.Fatal\<close> (which ends the process) and \<^verbatim>\<open>panic\<close> are outcomes of their own;
  \<^item> a loop that may run forever is a partial function into \<open>option\<close>: \<open>None\<close> is
    "never returns".
  \<^verbatim>\<open>time.Sleep(contractRequestInterval)\<close> changes no value and is left out. The printers
  \<^verbatim>\<open>mustLogJSONIndent\<close> and \<^verbatim>\<open>mustPrintJSONIndent\<close> are taken to print the value they are
  given. \<^verbatim>\<open>int\<close> has 64 bits.
\<close>

subsection \<open>Values\<close>

type_synonym uint8 = "8 word"
type_synonym uint32 = "32 word"
type_synonym uint64 = "64 word"
type_synonym address = "160 word"  \<comment> \<open>\<^verbatim>\<open>common.Address\<close>, 20 bytes\<close>
type_synonym hash = "256 word"     \<comment> \<open>\<^verbatim>\<open>common.Hash\<close>, \<^verbatim>\<open>[32]byte\<close>\<close>
type_synonym bigInt = int           \<comment> \<open>\<^verbatim>\<open>*big.Int\<close>\<close>

text \<open>A Go \<^verbatim>\<open>error\<close> value, with its message.\<close>

datatype error = Error string

text \<open>How a call ends: it returns, or \<^verbatim>\<open>log.Fatal\<close> ends the process, or it panics.\<close>

datatype 'a outcome = Returns 'a | Fatal string error | Panic string

text \<open>A read through a handle: \<^verbatim>\<open>(T, error)\<close> from the binding, and the state after the call.\<close>

type_synonym ('a, 's) call = "'s \<Rightarrow> (error + 'a) \<times> 's"

text \<open>The Go result pair \<^verbatim>\<open>(*T, error)\<close>, also used for \<^verbatim>\<open>([]T, error)\<close>.\<close>

type_synonym 'a ret = "'a option \<times> error option"

subsection \<open>The capability interfaces\<close>

text \<open>
  What \<^verbatim>\<open>RollupIDToRollupData\<close> and \<^verbatim>\<open>RollupTypeMap\<close> of a binding return: the fields the
  code reads from them.
\<close>

record rollupDataReturn =
  RollupContract :: address
  ChainID :: uint64
  Verifier :: address
  ForkID :: uint64
  LastLocalExitRoot :: hash
  LastBatchSequenced :: uint64
  LastVerifiedBatch :: uint64
  LastPendingState :: uint64
  LastPendingStateConsolidated :: uint64
  LastVerifiedBatchBeforeUpgrade :: uint64
  RollupTypeID :: uint64
  RollupCompatibilityID :: uint8

record rollupTypeReturn =
  t_ConsensusImplementation :: address
  t_Verifier :: address
  t_ForkID :: uint64
  t_RollupCompatibilityID :: uint8
  t_Obsolete :: bool
  t_Genesis :: hash

text \<open>
  \<^verbatim>\<open>rollupManagerContractInterface\<close>: the methods the code calls on a rollup manager.
  Every method is called with \<^verbatim>\<open>nil\<close> call options.
\<close>

record 's rollupManagerContractInterface =
  rm_Pol :: "(address, 's) call"
  rm_BridgeAddress :: "(address, 's) call"
  rm_RollupCount :: "(uint32, 's) call"
  rm_GetBatchFee :: "(bigInt, 's) call"
  rm_TotalSequencedBatches :: "(uint64, 's) call"
  rm_TotalVerifiedBatches :: "(uint64, 's) call"
  rm_LastAggregationTimestamp :: "(uint64, 's) call"
  rm_LastDeactivatedEmergencyStateTimestamp :: "(uint64, 's) call"
  rm_RollupIDToRollupData :: "uint32 \<Rightarrow> (rollupDataReturn, 's) call"
  rm_RollupTypeCount :: "(uint32, 's) call"
  rm_RollupTypeMap :: "uint32 \<Rightarrow> (rollupTypeReturn, 's) call"
  rm_ChainIDToRollupID :: "uint64 \<Rightarrow> (uint32, 's) call"
  rm_RollupAddressToID :: "address \<Rightarrow> (uint32, 's) call"

text \<open>\<^verbatim>\<open>gerContractInterface\<close>: the methods the code calls on a global exit root manager.\<close>

record 's gerContractInterface =
  ger_BridgeAddress :: "(address, 's) call"
  ger_DepositCount :: "(bigInt, 's) call"
  ger_GetLastGlobalExitRoot :: "(hash, 's) call"
  ger_GetRoot :: "(hash, 's) call"
  ger_LastMainnetExitRoot :: "(hash, 's) call"
  ger_LastRollupExitRoot :: "(hash, 's) call"
  ger_RollupManager :: "(address, 's) call"

subsection \<open>Snapshot records\<close>

record RollupManagerData =
  rmd_Pol :: address
  rmd_BridgeAddress :: address
  rmd_RollupCount :: uint32
  rmd_BatchFee :: bigInt
  rmd_TotalSequencedBatches :: uint64
  rmd_TotalVerifiedBatches :: uint64
  rmd_LastAggregationTimestamp :: uint64
  rmd_LastDeactivatedEmergencyStateTimestamp :: uint64

record gerData =
  gd_BridgeAddress :: address
  gd_DepositCount :: bigInt
  gd_GetLastGlobalExitRoot :: hash
  gd_Root :: hash
  gd_LastMainnetExitRoot :: hash
  gd_LastRollupExitRoot :: hash
  gd_RollupManager :: address

record gerDumpData =
  gdd_Data :: "gerData option"

record RollupData =
  rd_RollupContract :: address
  rd_ChainID :: uint64
  rd_Verifier :: address
  rd_ForkID :: uint64
  rd_LastLocalExitRoot :: hash
  rd_LastBatchSequenced :: uint64
  rd_LastVerifiedBatch :: uint64
  rd_LastPendingState :: uint64
  rd_LastPendingStateConsolidated :: uint64
  rd_LastVerifiedBatchBeforeUpgrade :: uint64
  rd_RollupTypeID :: uint64
  rd_RollupCompatibilityID :: uint8

record RollupTypeData =
  rtd_ConsensusImplementation :: address
  rtd_Verifier :: address
  rtd_ForkID :: uint64
  rtd_RollupCompatibilityID :: uint8
  rtd_Obsolete :: bool
  rtd_Genesis :: hash

record RollupManagerDumpData =
  dd_Data :: "RollupManagerData option"
  dd_Rollups :: "RollupData list option"
  dd_RollupTypes :: "RollupTypeData list option"

subsection \<open>Snapshot assembly\<close>

text \<open>
  \<^verbatim>\<open>getRollupManagerData\<close>: eight reads in the order of the source; after each one
  \<^verbatim>\<open>if err != nil { return nil, err }\<close>.
\<close>

definition getRollupManagerData ::
  "'s rollupManagerContractInterface \<Rightarrow> 's \<Rightarrow> RollupManagerData ret \<times> 's" where
  "getRollupManagerData rollupManager s0 =
    (case rm_Pol rollupManager s0 of
       (Inl err, s1) \<Rightarrow> ((None, Some err), s1)
     | (Inr pol, s1) \<Rightarrow>
    (case rm_BridgeAddress rollupManager s1 of
       (Inl err, s2) \<Rightarrow> ((None, Some err), s2)
     | (Inr bridgeAddress, s2) \<Rightarrow>
    (case rm_RollupCount rollupManager s2 of
       (Inl err, s3) \<Rightarrow> ((None, Some err), s3)
     | (Inr rollupCount, s3) \<Rightarrow>
    (case rm_GetBatchFee rollupManager s3 of
       (Inl err, s4) \<Rightarrow> ((None, Some err), s4)
     | (Inr batchFee, s4) \<Rightarrow>
    (case rm_TotalSequencedBatches rollupManager s4 of
       (Inl err, s5) \<Rightarrow> ((None, Some err), s5)
     | (Inr totalSequencedBatches, s5) \<Rightarrow>
    (case rm_TotalVerifiedBatches rollupManager s5 of
       (Inl err, s6) \<Rightarrow> ((None, Some err), s6)
     | (Inr totalVerifiedBatches, s6) \<Rightarrow>
    (case rm_LastAggregationTimestamp rollupManager s6 of
       (Inl err, s7) \<Rightarrow> ((None, Some err), s7)
     | (Inr lastAggregationTimestamp, s7) \<Rightarrow>
    (case rm_LastDeactivatedEmergencyStateTimestamp rollupManager s7 of
       (Inl err, s8) \<Rightarrow> ((None, Some err), s8)
     | (Inr lastDeactivatedEmergencyStateTimestamp, s8) \<Rightarrow>
       ((Some \<lparr> rmd_Pol = pol,
                 rmd_BridgeAddress = bridgeAddress,
                 rmd_RollupCount = rollupCount,
                 rmd_BatchFee = batchFee,
                 rmd_TotalSequencedBatches = totalSequencedBatches,
                 rmd_TotalVerifiedBatches = totalVerifiedBatches,
                 rmd_LastAggregationTimestamp = lastAggregationTimestamp,
                 rmd_LastDeactivatedEmergencyStateTimestamp =
                   lastDeactivatedEmergencyStateTimestamp \<rparr>, None), s8)))))))))"

text \<open>\<^verbatim>\<open>getGERData\<close>: seven reads, the same pattern.\<close>

definition getGERData :: "'s gerContractInterface \<Rightarrow> 's \<Rightarrow> gerData ret \<times> 's" where
  "getGERData ger s0 =
    (case ger_BridgeAddress ger s0 of
       (Inl err, s1) \<Rightarrow> ((None, Some err), s1)
     | (Inr bridgeAddress, s1) \<Rightarrow>
    (case ger_DepositCount ger s1 of
       (Inl err, s2) \<Rightarrow> ((None, Some err), s2)
     | (Inr depositCount, s2) \<Rightarrow>
    (case ger_GetLastGlobalExitRoot ger s2 of
       (Inl err, s3) \<Rightarrow> ((None, Some err), s3)
     | (Inr getLastGlobalExitRoot, s3) \<Rightarrow>
    (case ger_GetRoot ger s3 of
       (Inl err, s4) \<Rightarrow> ((None, Some err), s4)
     | (Inr root, s4) \<Rightarrow>
    (case ger_LastMainnetExitRoot ger s4 of
       (Inl err, s5) \<Rightarrow> ((None, Some err), s5)
     | (Inr lastMainnetExitRoot, s5) \<Rightarrow>
    (case ger_LastRollupExitRoot ger s5 of
       (Inl err, s6) \<Rightarrow> ((None, Some err), s6)
     | (Inr lastRollupExitRoot, s6) \<Rightarrow>
    (case ger_RollupManager ger s6 of
       (Inl err, s7) \<Rightarrow> ((None, Some err), s7)
     | (Inr rollupManager, s7) \<Rightarrow>
       ((Some \<lparr> gd_BridgeAddress = bridgeAddress,
                 gd_DepositCount = depositCount,
                 gd_GetLastGlobalExitRoot = getLastGlobalExitRoot,
                 gd_Root = root,
                 gd_LastMainnetExitRoot = lastMainnetExitRoot,
                 gd_LastRollupExitRoot = lastRollupExitRoot,
                 gd_RollupManager = rollupManager \<rparr>, None), s7))))))))"

subsection \<open>Enumeration of rollups and rollup types\<close>

text \<open>
  The body of \<^verbatim>\<open>for i := uint32(1); i <= rollupCount; i++\<close>. The counter is a 32-bit
  word, so \<open>i + 1\<close> wraps around as \<^verbatim>\<open>i++\<close> does; the loop returns \<open>None\<close> when it
  never ends.
\<close>

definition toRollupData :: "rollupDataReturn \<Rightarrow> RollupData" where
  "toRollupData rollupData =
    \<lparr> rd_RollupContract = RollupContract rollupData,
      rd_ChainID = ChainID rollupData,
      rd_Verifier = Verifier rollupData,
      rd_ForkID = ForkID rollupData,
      rd_LastLocalExitRoot = LastLocalExitRoot rollupData,
      rd_LastBatchSequenced = LastBatchSequenced rollupData,
      rd_LastVerifiedBatch = LastVerifiedBatch rollupData,
      rd_LastPendingState = LastPendingState rollupData,
      rd_LastPendingStateConsolidated = LastPendingStateConsolidated rollupData,
      rd_LastVerifiedBatchBeforeUpgrade = LastVerifiedBatchBeforeUpgrade rollupData,
      rd_RollupTypeID = RollupTypeID rollupData,
      rd_RollupCompatibilityID = RollupCompatibilityID rollupData \<rparr>"

definition toRollupTypeData :: "rollupTypeReturn \<Rightarrow> RollupTypeData" where
  "toRollupTypeData rollupType =
    \<lparr> rtd_ConsensusImplementation = t_ConsensusImplementation rollupType,
      rtd_Verifier = t_Verifier rollupType,
      rtd_ForkID = t_ForkID rollupType,
      rtd_RollupCompatibilityID = t_RollupCompatibilityID rollupType,
      rtd_Obsolete = t_Obsolete rollupType,
      rtd_Genesis = t_Genesis rollupType \<rparr>"

text \<open>
  The Go runtime, as far as the slices of the two enumerations depend on it.
  \<^verbatim>\<open>make([]T, 0, n)\<close> allocates the backing array for \<open>n\<close> elements at once: \<open>rt_makeslice\<close>
  is \<open>None\<close> when it does, and the message the process dies with when it does not (a
  capacity out of range, or no memory). \<^verbatim>\<open>append\<close> to a slice that is full at capacity \<open>n\<close>
  allocates a larger array: \<open>rt_growslice\<close> gives the new capacity, or the message the
  process dies with. The process ending there is the outcome \<open>Panic\<close>.
\<close>

record runtime =
  rt_makeslice :: "nat \<Rightarrow> string option"
  rt_growslice :: "nat \<Rightarrow> string + nat"

text \<open>
  \<^verbatim>\<open>getRollupManagerRollups\<close>: the count read, then
  \<^verbatim>\<open>rollups := make([]RollupData, 0, rollupCount)\<close>, then the loop; \<open>capacity\<close> is the capacity
  of \<^verbatim>\<open>rollups\<close>, which \<^verbatim>\<open>append\<close> enlarges only when the slice is full.
\<close>

partial_function (option) rollupsLoop ::
  "runtime \<Rightarrow> 's rollupManagerContractInterface \<Rightarrow> uint32 \<Rightarrow> uint32 \<Rightarrow> nat
     \<Rightarrow> RollupData list \<Rightarrow> 's \<Rightarrow> (RollupData list ret outcome \<times> 's) option" where
  "rollupsLoop rt rollupManager rollupCount i capacity rollups s =
    (if i \<le> rollupCount then
       (case rm_RollupIDToRollupData rollupManager i s of
          (Inl err, s') \<Rightarrow> Some (Returns (None, Some err), s')
        | (Inr rollupData, s') \<Rightarrow>
            if length rollups < capacity then
              rollupsLoop rt rollupManager rollupCount (i + 1) capacity
                (rollups @ [toRollupData rollupData]) s'
            else
              (case rt_growslice rt capacity of
                 Inl msg \<Rightarrow> Some (Panic msg, s')
               | Inr grown \<Rightarrow>
                   rollupsLoop rt rollupManager rollupCount (i + 1) grown
                     (rollups @ [toRollupData rollupData]) s'))
     else Some (Returns (Some rollups, None), s))"

definition getRollupManagerRollups ::
  "runtime \<Rightarrow> 's rollupManagerContractInterface \<Rightarrow> 's
     \<Rightarrow> (RollupData list ret outcome \<times> 's) option" where
  "getRollupManagerRollups rt rollupManager s0 =
    (case rm_RollupCount rollupManager s0 of
       (Inl err, s1) \<Rightarrow> Some (Returns (None, Some err), s1)
     | (Inr rollupCount, s1) \<Rightarrow>
        (case rt_makeslice rt (unat rollupCount) of
           Some msg \<Rightarrow> Some (Panic msg, s1)
         | None \<Rightarrow>
             rollupsLoop rt rollupManager rollupCount 1 (unat rollupCount) [] s1))"

text \<open>\<^verbatim>\<open>getRollupManagerRollupTypes\<close>: the same, with
  \<^verbatim>\<open>rollupTypes := make([]RollupTypeData, 0, rollupTypeCount)\<close>.\<close>

partial_function (option) rollupTypesLoop ::
  "runtime \<Rightarrow> 's rollupManagerContractInterface \<Rightarrow> uint32 \<Rightarrow> uint32 \<Rightarrow> nat
     \<Rightarrow> RollupTypeData list \<Rightarrow> 's \<Rightarrow> (RollupTypeData list ret outcome \<times> 's) option" where
  "rollupTypesLoop rt rollupManager rollupTypeCount i capacity rollupTypes s =
    (if i \<le> rollupTypeCount then
       (case rm_RollupTypeMap rollupManager i s of
          (Inl err, s') \<Rightarrow> Some (Returns (None, Some err), s')
        | (Inr rollupType, s') \<Rightarrow>
            if length rollupTypes < capacity then
              rollupTypesLoop rt rollupManager rollupTypeCount (i + 1) capacity
                (rollupTypes @ [toRollupTypeData rollupType]) s'
            else
              (case rt_growslice rt capacity of
                 Inl msg \<Rightarrow> Some (Panic msg, s')
               | Inr grown \<Rightarrow>
                   rollupTypesLoop rt rollupManager rollupTypeCount (i + 1) grown
                     (rollupTypes @ [toRollupTypeData rollupType]) s'))
     else Some (Returns (Some rollupTypes, None), s))"

definition getRollupManagerRollupTypes ::
  "runtime \<Rightarrow> 's rollupManagerContractInterface \<Rightarrow> 's
     \<Rightarrow> (RollupTypeData list ret outcome \<times> 's) option" where
  "getRollupManagerRollupTypes rt rollupManager s0 =
    (case rm_RollupTypeCount rollupManager s0 of
       (Inl err, s1) \<Rightarrow> Some (Returns (None, Some err), s1)
     | (Inr rollupTypeCount, s1) \<Rightarrow>
        (case rt_makeslice rt (unat rollupTypeCount) of
           Some msg \<Rightarrow> Some (Panic msg, s1)
         | None \<Rightarrow>
             rollupTypesLoop rt rollupManager rollupTypeCount 1 (unat rollupTypeCount) []
               s1))"

subsection \<open>Command-line arguments\<close>

text \<open>The fork numbers of the source, and the table \<^verbatim>\<open>knownForks\<close> with its six live entries.\<close>

definition blueberry :: uint64 where "blueberry = 4"
definition dragonfruit :: uint64 where "dragonfruit = 5"
definition incaberry :: uint64 where "incaberry = 6"
definition etrog :: uint64 where "etrog = 7"
definition elderberry :: uint64 where "elderberry = 9"
definition feijoa :: uint64 where "feijoa = 10"
definition banana :: uint64 where "banana = 12"
definition durian :: uint64 where "durian = 13"

definition ArgRollupManagerAddress :: string where
  "ArgRollupManagerAddress = ''rollup-manager-address''"
definition ArgRollupChainID :: string where "ArgRollupChainID = ''rollup-chain-id''"
definition ArgRollupID :: string where "ArgRollupID = ''rollup-id''"
definition ArgRollupAddress :: string where "ArgRollupAddress = ''rollup-address''"

definition knownRollupManagerAddresses :: "(string \<times> string) list" where
  "knownRollupManagerAddresses =
    [(''bali'', ''0xe2ef6215adc132df6913c8dd16487abf118d1764''),
     (''cardona'', ''0x32d33D5137a7cFFb54c5Bf8371172bcEc5f310ff''),
     (''mainnet'', ''0x5132a183e9f3cb7c848b0aac5ae0c4f0491b7ab2'')]"

definition knownForks :: "(string \<times> uint64) list" where
  "knownForks =
    [(''7'', etrog), (''etrog'', etrog),
     (''9'', elderberry), (''elderberry'', elderberry),
     (''12'', banana), (''banana'', banana)]"

text \<open>
  \<^verbatim>\<open>inputArgs\<close>: every field is a \<^verbatim>\<open>*string\<close>; \<open>None\<close> is the \<^verbatim>\<open>nil\<close> pointer. The methods
  below read both their receiver \<^verbatim>\<open>inputArgs\<close> and the package variable
  \<^verbatim>\<open>cdkInputArgs\<close>, as the source does, so they take both.
\<close>

record inputArgs =
  rpcURL :: "string option"
  forkID :: "string option"
  rollupManagerAddress :: "string option"
  rollupID :: "string option"
  rollupChainID :: "string option"
  rollupAddress :: "string option"

record 'c parsedCDKArgs =
  a_rpcURL :: string
  a_rpcClient :: 'c
  a_forkID :: uint64

text \<open>\<^verbatim>\<open>rollupManager\<close> is an interface value: \<open>None\<close> is the \<^verbatim>\<open>nil\<close> interface.\<close>

record 's parsedRollupManagerArgs =
  m_rollupManager :: "'s rollupManagerContractInterface option"
  m_rollupManagerAddress :: address

record parsedRollupArgs =
  r_rollupID :: uint32
  r_rollupChainID :: uint64
  r_rollupAddress :: address

definition nilDereference :: string where
  "nilDereference = ''runtime error: invalid memory address or nil pointer dereference''"

text \<open>
  The sorted key list of the error message of \<^verbatim>\<open>parseCDKArgs\<close>:
  \<^verbatim>\<open>make([]string, len(knownForks))\<close> starts the slice with one empty string for each
  key, and the keys are appended to it; \<^verbatim>\<open>slices.Sort\<close> puts the empty strings first and
  the keys in byte order after them.
\<close>

fun insertString :: "string \<Rightarrow> string list \<Rightarrow> string list" where
  "insertString k [] = [k]"
| "insertString k (x # xs) =
     (if lexordp (\<lambda>a b. (of_char a :: nat) < of_char b) x k
      then x # insertString k xs else k # x # xs)"

definition sortStrings :: "string list \<Rightarrow> string list" where
  "sortStrings ks = foldr insertString ks []"

fun Join :: "string list \<Rightarrow> string \<Rightarrow> string" where
  "Join [] sep = []"
| "Join [k] sep = k"
| "Join (k # ks) sep = k @ sep @ Join ks sep"

definition invalidForkID :: error where
  "invalidForkID =
    Error (''invalid forkID. supported forkIDs are '' @
      Join (sortStrings (replicate (length knownForks) [] @ map fst knownForks)) '', '')"

subsection \<open>What the code calls outside the source files\<close>

text \<open>
  \<^verbatim>\<open>bridgeData\<close>, \<^verbatim>\<open>ger\<close> and \<^verbatim>\<open>customFilter\<close> are declared in files of the repository that
  are not among the sources; the records hold the fields the code reads or writes.
\<close>

record bridgeData =
  bd_GlobalExitRootManager :: address

record ('s, 'i) ger =
  g_gerContractInterface :: "'s gerContractInterface"
  g_instance :: 'i

record FilterQuery =
  fq_Addresses :: "address list"

record ('i, 'abi) customFilter =
  cf_contractInstance :: 'i
  cf_contractABI :: 'abi
  cf_blockchainFilter :: FilterQuery

text \<open>
  The environment of the commands. The first six fields are library functions
  (\<^verbatim>\<open>ethclient.DialContext\<close>, \<^verbatim>\<open>common.IsHexAddress\<close>, \<^verbatim>\<open>common.HexToAddress\<close> and the
  three \<^verbatim>\<open>NewPolygonrollupmanager\<close> constructors of the fork bindings). The last five are
  functions of package \<^verbatim>\<open>cdk\<close> whose bodies are not among the sources: they are
  parameters, and nothing is assumed about them. A resolver returns the handle and its
  ABI, or an error; \<^verbatim>\<open>getRollupManager\<close> is called with two results in one source file and
  with three in the other, and has three here. \<^verbatim>\<open>watchNewLogs\<close> may never return
  (\<open>None\<close>). The last field is the Go runtime for slices of the element type named.
\<close>

record ('c, 's, 'b, 'i, 'abi) env =
  DialContext :: "string \<Rightarrow> ('c, 's) call"
  IsHexAddress :: "string \<Rightarrow> bool"
  HexToAddress :: "string \<Rightarrow> address"
  etrog_NewPolygonrollupmanager ::
    "address \<Rightarrow> 'c \<Rightarrow> error + 's rollupManagerContractInterface"
  elderberry_NewPolygonrollupmanager ::
    "address \<Rightarrow> 'c \<Rightarrow> error + 's rollupManagerContractInterface"
  banana_NewPolygonrollupmanager ::
    "address \<Rightarrow> 'c \<Rightarrow> error + 's rollupManagerContractInterface"
  getRollupManager ::
    "'c parsedCDKArgs \<Rightarrow> 'c \<Rightarrow> address \<Rightarrow> error + ('s rollupManagerContractInterface \<times> 'abi)"
  getBridge :: "'c parsedCDKArgs \<Rightarrow> 'c \<Rightarrow> address \<Rightarrow> error + ('b \<times> 'abi)"
  getBridgeData :: "'b \<Rightarrow> (bridgeData, 's) call"
  getGER :: "'c parsedCDKArgs \<Rightarrow> 'c \<Rightarrow> address \<Rightarrow> error + (('s, 'i) ger \<times> 'abi)"
  watchNewLogs :: "'c \<Rightarrow> ('i, 'abi) customFilter \<Rightarrow> 's \<Rightarrow> (error option \<times> 's) option"
  sliceRuntime :: "string \<Rightarrow> runtime"

subsection \<open>Parsing the arguments\<close>

definition checkAddressArg :: "(string \<Rightarrow> bool) \<Rightarrow> string \<Rightarrow> string \<Rightarrow> error option" where
  "checkAddressArg isHexAddress argFlagName addr =
    (let prefix = ''invalid flag '' @ argFlagName @ '': '' in
     if \<not> isHexAddress addr then Some (Error (prefix @ ''invalid address'')) else None)"

text \<open>\<^verbatim>\<open>log.Fatal().Err(err).Msg(...)\<close> ends the process: nothing is returned to the caller.\<close>

definition mustGetRPCClient :: "(string \<Rightarrow> ('c, 's) call) \<Rightarrow> string \<Rightarrow> 's \<Rightarrow> 'c outcome \<times> 's" where
  "mustGetRPCClient dialContext url s =
    (case dialContext url s of
       (Inl err, s') \<Rightarrow> (Fatal ''Unable to Dial RPC'' err, s')
     | (Inr rpcClient, s') \<Rightarrow> (Returns rpcClient, s'))"

definition parseCDKArgs ::
  "(string \<Rightarrow> ('c, 's) call) \<Rightarrow> inputArgs \<Rightarrow> 's \<Rightarrow> 'c parsedCDKArgs ret outcome \<times> 's" where
  "parseCDKArgs dialContext inputArgs s =
    (case rpcURL inputArgs of
       None \<Rightarrow> (Panic nilDereference, s)
     | Some url \<Rightarrow>
        (case mustGetRPCClient dialContext url s of
           (Fatal msg err, s') \<Rightarrow> (Fatal msg err, s')
         | (Panic msg, s') \<Rightarrow> (Panic msg, s')
         | (Returns rpcClient, s') \<Rightarrow>
            (if forkID inputArgs \<noteq> None \<and> length (the (forkID inputArgs)) > 0 then
               (case map_of knownForks (the (forkID inputArgs)) of
                  None \<Rightarrow> (Returns (None, Some invalidForkID), s')
                | Some fork \<Rightarrow>
                    (Returns (Some \<lparr> a_rpcURL = url, a_rpcClient = rpcClient,
                                      a_forkID = fork \<rparr>, None), s'))
             else
               (Returns (Some \<lparr> a_rpcURL = url, a_rpcClient = rpcClient,
                                 a_forkID = 0 \<rparr>, None), s'))))"

text \<open>
  \<^verbatim>\<open>parseRollupManagerArgs\<close> first fixes \<^verbatim>\<open>args.rollupManagerAddress\<close> (in one of two
  branches) and then runs \<^verbatim>\<open>switch cdkArgs.forkID\<close>; \<open>bindRollupManager\<close> is that switch,
  reached from both branches. It has three cases and no default: for any other fork
  number \<^verbatim>\<open>args.rollupManager\<close> keeps its zero value \<^verbatim>\<open>nil\<close>, and \<^verbatim>\<open>args, nil\<close> is
  returned.
\<close>

definition bindRollupManager ::
  "('c, 's, 'b, 'i, 'abi) env \<Rightarrow> 'c parsedCDKArgs \<Rightarrow> address
     \<Rightarrow> 's parsedRollupManagerArgs ret outcome" where
  "bindRollupManager env cdkArgs addr =
    (if a_forkID cdkArgs = etrog then
       (case etrog_NewPolygonrollupmanager env addr (a_rpcClient cdkArgs) of
          Inl err \<Rightarrow> Returns (None, Some err)
        | Inr rollupManager \<Rightarrow>
            Returns (Some \<lparr> m_rollupManager = Some rollupManager,
                             m_rollupManagerAddress = addr \<rparr>, None))
     else if a_forkID cdkArgs = elderberry then
       (case elderberry_NewPolygonrollupmanager env addr (a_rpcClient cdkArgs) of
          Inl err \<Rightarrow> Returns (None, Some err)
        | Inr rollupManager \<Rightarrow>
            Returns (Some \<lparr> m_rollupManager = Some rollupManager,
                             m_rollupManagerAddress = addr \<rparr>, None))
     else if a_forkID cdkArgs = banana then
       (case banana_NewPolygonrollupmanager env addr (a_rpcClient cdkArgs) of
          Inl err \<Rightarrow> Returns (None, Some err)
        | Inr rollupManager \<Rightarrow>
            Returns (Some \<lparr> m_rollupManager = Some rollupManager,
                             m_rollupManagerAddress = addr \<rparr>, None))
     else Returns (Some \<lparr> m_rollupManager = None, m_rollupManagerAddress = addr \<rparr>, None))"

definition parseRollupManagerArgs ::
  "('c, 's, 'b, 'i, 'abi) env \<Rightarrow> inputArgs \<Rightarrow> inputArgs \<Rightarrow> 'c parsedCDKArgs
     \<Rightarrow> 's parsedRollupManagerArgs ret outcome" where
  "parseRollupManagerArgs env cdkInputArgs inputArgs cdkArgs =
    (case rollupManagerAddress cdkInputArgs of
       None \<Rightarrow> Panic nilDereference
     | Some globalAddress \<Rightarrow>
        (case map_of knownRollupManagerAddresses globalAddress of
           Some knownRollupManagerAddress \<Rightarrow>
             bindRollupManager env cdkArgs (HexToAddress env knownRollupManagerAddress)
         | None \<Rightarrow>
            (case rollupManagerAddress inputArgs of
               None \<Rightarrow> Panic nilDereference
             | Some receiverAddress \<Rightarrow>
                (case checkAddressArg (IsHexAddress env) ArgRollupManagerAddress
                        receiverAddress of
                   Some err \<Rightarrow> Returns (None, Some err)
                 | None \<Rightarrow> bindRollupManager env cdkArgs (HexToAddress env globalAddress)))))"

subsection \<open>Parsing the rollup arguments\<close>

text \<open>
  \<^verbatim>\<open>strconv.ParseInt(s, 10, 64)\<close> and \<^verbatim>\<open>strconv.Atoi(s)\<close> (with a 64-bit \<^verbatim>\<open>int\<close>) of the Go
  library: an optional sign, then one or more decimal digits, read from left to right;
  a character that is no digit is a syntax error, a value outside \<open>-2^63 .. 2^63 - 1\<close>
  a range error.
\<close>

datatype NumError = ErrSyntax | ErrRange

definition isDigit :: "char \<Rightarrow> bool" where
  "isDigit c = (48 \<le> (of_char c :: nat) \<and> (of_char c :: nat) \<le> 57)"

fun parseDigits :: "string \<Rightarrow> nat \<Rightarrow> NumError + nat" where
  "parseDigits [] n = Inr n"
| "parseDigits (c # cs) n =
     (if \<not> isDigit c then Inl ErrSyntax
      else if n * 10 + (of_char c - 48) > 2 ^ 64 - 1 then Inl ErrRange
      else parseDigits cs (n * 10 + (of_char c - 48)))"

definition ParseInt :: "string \<Rightarrow> NumError + int" where
  "ParseInt s =
    (if s = [] then Inl ErrSyntax
     else
       let neg = (hd s = CHR ''-'');
           digits = (if hd s = CHR ''+'' \<or> hd s = CHR ''-'' then tl s else s)
       in if digits = [] then Inl ErrSyntax
          else (case parseDigits digits 0 of
                  Inl err \<Rightarrow> Inl err
                | Inr un \<Rightarrow>
                    if \<not> neg \<and> un \<ge> 2 ^ 63 then Inl ErrRange
                    else if neg \<and> un > 2 ^ 63 then Inl ErrRange
                    else Inr (if neg then - int un else int un)))"

definition Atoi :: "string \<Rightarrow> NumError + int" where
  "Atoi s = ParseInt s"

text \<open>
  \<^verbatim>\<open>parseRollupArgs\<close>. The conversions \<^verbatim>\<open>uint64(rollupChainIDN)\<close> and \<^verbatim>\<open>uint32(rollupIDN)\<close>
  keep the low 64 and 32 bits (\<open>word_of_int\<close>). The error of a bad chain id prints
  \<^verbatim>\<open>*cdkInputArgs.rollupID\<close>, as the source does.
\<close>

definition parseRollupID ::
  "inputArgs \<Rightarrow> 's parsedRollupManagerArgs option \<Rightarrow> uint64 \<Rightarrow> address \<Rightarrow> 's
     \<Rightarrow> parsedRollupArgs ret outcome \<times> 's" where
  "parseRollupID cdkInputArgs rollupManagerArgs chainID addr s =
    (if rollupID cdkInputArgs \<noteq> None \<and> length (the (rollupID cdkInputArgs)) > 0 then
       (case Atoi (the (rollupID cdkInputArgs)) of
          Inl err \<Rightarrow>
            (Returns (None, Some (Error (''invalid rollupID: '' @ the (rollupID cdkInputArgs)
               @ '', it must be a valid uint32''))), s)
        | Inr rollupIDN \<Rightarrow>
            if rollupIDN < 0 then
              (Returns (None, Some (Error (''invalid rollupID: '' @ the (rollupID cdkInputArgs)
                 @ '', it must be a valid uint32''))), s)
            else
              (Returns (Some \<lparr> r_rollupID = word_of_int rollupIDN, r_rollupChainID = chainID,
                                r_rollupAddress = addr \<rparr>, None), s))
     else if chainID = 0 \<and> addr = 0 then
       (Returns (None, Some (Error (ArgRollupID @ '', '' @ ArgRollupChainID @ '', or ''
          @ ArgRollupAddress @ '' must be provided''))), s)
     else
       (case rollupManagerArgs of
          None \<Rightarrow> (Panic nilDereference, s)
        | Some managerArgs \<Rightarrow>
           (case m_rollupManager managerArgs of
              None \<Rightarrow> (Panic nilDereference, s)
            | Some rollupManager \<Rightarrow>
                if chainID \<noteq> 0 then
                  (case rm_ChainIDToRollupID rollupManager chainID s of
                     (Inl err, s') \<Rightarrow> (Returns (None, Some err), s')
                   | (Inr rid, s') \<Rightarrow>
                       (Returns (Some \<lparr> r_rollupID = rid, r_rollupChainID = chainID,
                                         r_rollupAddress = addr \<rparr>, None), s'))
                else
                  (case rm_RollupAddressToID rollupManager addr s of
                     (Inl err, s') \<Rightarrow> (Returns (None, Some err), s')
                   | (Inr rid, s') \<Rightarrow>
                       (Returns (Some \<lparr> r_rollupID = rid, r_rollupChainID = chainID,
                                         r_rollupAddress = addr \<rparr>, None), s')))))"

definition parseRollupAddress ::
  "('c, 's, 'b, 'i, 'abi) env \<Rightarrow> inputArgs \<Rightarrow> inputArgs \<Rightarrow> 's parsedRollupManagerArgs option
     \<Rightarrow> uint64 \<Rightarrow> 's \<Rightarrow> parsedRollupArgs ret outcome \<times> 's" where
  "parseRollupAddress env cdkInputArgs inputArgs rollupManagerArgs chainID s =
    (if rollupAddress inputArgs \<noteq> None \<and> length (the (rollupAddress inputArgs)) > 0 then
       (case checkAddressArg (IsHexAddress env) ArgRollupAddress
               (the (rollupAddress inputArgs)) of
          Some err \<Rightarrow> (Returns (None, Some err), s)
        | None \<Rightarrow>
            parseRollupID cdkInputArgs rollupManagerArgs chainID
              (HexToAddress env (the (rollupAddress inputArgs))) s)
     else parseRollupID cdkInputArgs rollupManagerArgs chainID 0 s)"

definition parseRollupArgs ::
  "('c, 's, 'b, 'i, 'abi) env \<Rightarrow> inputArgs \<Rightarrow> inputArgs \<Rightarrow> 's parsedRollupManagerArgs option
     \<Rightarrow> 's \<Rightarrow> parsedRollupArgs ret outcome \<times> 's" where
  "parseRollupArgs env cdkInputArgs inputArgs rollupManagerArgs s =
    (if rollupChainID cdkInputArgs \<noteq> None \<and> length (the (rollupChainID cdkInputArgs)) > 0
     then
       (case ParseInt (the (rollupChainID cdkInputArgs)) of
          Inl err \<Rightarrow>
            (case rollupID cdkInputArgs of
               None \<Rightarrow> (Panic nilDereference, s)
             | Some rid \<Rightarrow>
                 (Returns (None, Some (Error (''invalid rollupChainID: '' @ rid
                    @ '', it must be a valid uint64''))), s))
        | Inr rollupChainIDN \<Rightarrow>
            if rollupChainIDN < 0 then
              (case rollupID cdkInputArgs of
                 None \<Rightarrow> (Panic nilDereference, s)
               | Some rid \<Rightarrow>
                   (Returns (None, Some (Error (''invalid rollupChainID: '' @ rid
                      @ '', it must be a valid uint64''))), s))
            else
              parseRollupAddress env cdkInputArgs inputArgs rollupManagerArgs
                (word_of_int rollupChainIDN) s)
     else parseRollupAddress env cdkInputArgs inputArgs rollupManagerArgs 0 s)"

subsection \<open>The commands\<close>

text \<open>
  A command returns an \<^verbatim>\<open>error\<close> and may print one value (\<^verbatim>\<open>mustLogJSONIndent\<close>,
  \<^verbatim>\<open>mustPrintJSONIndent\<close>) before it returns \<^verbatim>\<open>nil\<close>: its result is the pair of the value
  printed, if any, and the error. The value handed to the printer is a pointer or a
  slice, so it is an option itself. Every command is a method call on the package
  variable \<^verbatim>\<open>cdkInputArgs\<close>, which is then also the receiver. A \<^verbatim>\<open>nil\<close> pointer that is
  dereferenced is a panic.
\<close>

type_synonym 'o cmdResult = "('o option \<times> error option) outcome"

definition rollupManagerListRollups ::
  "('c, 's, 'b, 'i, 'abi) env \<Rightarrow> inputArgs \<Rightarrow> 's
     \<Rightarrow> (RollupData list option cmdResult \<times> 's) option" where
  "rollupManagerListRollups env cdkInputArgs s0 =
    (case parseCDKArgs (DialContext env) cdkInputArgs s0 of
       (Fatal msg err, s1) \<Rightarrow> Some (Fatal msg err, s1)
     | (Panic msg, s1) \<Rightarrow> Some (Panic msg, s1)
     | (Returns (_, Some err), s1) \<Rightarrow> Some (Returns (None, Some err), s1)
     | (Returns (None, None), s1) \<Rightarrow> Some (Panic nilDereference, s1)
     | (Returns (Some cdkArgs, None), s1) \<Rightarrow>
    (case mustGetRPCClient (DialContext env) (a_rpcURL cdkArgs) s1 of
       (Fatal msg err, s2) \<Rightarrow> Some (Fatal msg err, s2)
     | (Panic msg, s2) \<Rightarrow> Some (Panic msg, s2)
     | (Returns rpcClient, s2) \<Rightarrow>
    (case parseRollupManagerArgs env cdkInputArgs cdkInputArgs cdkArgs of
       Fatal msg err \<Rightarrow> Some (Fatal msg err, s2)
     | Panic msg \<Rightarrow> Some (Panic msg, s2)
     | Returns (_, Some err) \<Rightarrow> Some (Returns (None, Some err), s2)
     | Returns (None, None) \<Rightarrow> Some (Panic nilDereference, s2)
     | Returns (Some rollupManagerArgs, None) \<Rightarrow>
    (case getRollupManager env cdkArgs rpcClient
            (m_rollupManagerAddress rollupManagerArgs) of
       Inl err \<Rightarrow> Some (Returns (None, Some err), s2)
     | Inr (rollupManager, _) \<Rightarrow>
    (case getRollupManagerRollups (sliceRuntime env ''RollupData'') rollupManager s2 of
       None \<Rightarrow> None
     | Some (Fatal msg err, s3) \<Rightarrow> Some (Fatal msg err, s3)
     | Some (Panic msg, s3) \<Rightarrow> Some (Panic msg, s3)
     | Some (Returns (_, Some err), s3) \<Rightarrow> Some (Returns (None, Some err), s3)
     | Some (Returns (rollups, None), s3) \<Rightarrow> Some (Returns (Some rollups, None), s3))))))"

definition rollupManagerListRollupTypes ::
  "('c, 's, 'b, 'i, 'abi) env \<Rightarrow> inputArgs \<Rightarrow> 's
     \<Rightarrow> (RollupTypeData list option cmdResult \<times> 's) option" where
  "rollupManagerListRollupTypes env cdkInputArgs s0 =
    (case parseCDKArgs (DialContext env) cdkInputArgs s0 of
       (Fatal msg err, s1) \<Rightarrow> Some (Fatal msg err, s1)
     | (Panic msg, s1) \<Rightarrow> Some (Panic msg, s1)
     | (Returns (_, Some err), s1) \<Rightarrow> Some (Returns (None, Some err), s1)
     | (Returns (None, None), s1) \<Rightarrow> Some (Panic nilDereference, s1)
     | (Returns (Some cdkArgs, None), s1) \<Rightarrow>
    (case mustGetRPCClient (DialContext env) (a_rpcURL cdkArgs) s1 of
       (Fatal msg err, s2) \<Rightarrow> Some (Fatal msg err, s2)
     | (Panic msg, s2) \<Rightarrow> Some (Panic msg, s2)
     | (Returns rpcClient, s2) \<Rightarrow>
    (case parseRollupManagerArgs env cdkInputArgs cdkInputArgs cdkArgs of
       Fatal msg err \<Rightarrow> Some (Fatal msg err, s2)
     | Panic msg \<Rightarrow> Some (Panic msg, s2)
     | Returns (_, Some err) \<Rightarrow> Some (Returns (None, Some err), s2)
     | Returns (None, None) \<Rightarrow> Some (Panic nilDereference, s2)
     | Returns (Some rollupManagerArgs, None) \<Rightarrow>
    (case getRollupManager env cdkArgs rpcClient
            (m_rollupManagerAddress rollupManagerArgs) of
       Inl err \<Rightarrow> Some (Returns (None, Some err), s2)
     | Inr (rollupManager, _) \<Rightarrow>
    (case getRollupManagerRollupTypes (sliceRuntime env ''RollupTypeData'') rollupManager
            s2 of
       None \<Rightarrow> None
     | Some (Fatal msg err, s3) \<Rightarrow> Some (Fatal msg err, s3)
     | Some (Panic msg, s3) \<Rightarrow> Some (Panic msg, s3)
     | Some (Returns (_, Some err), s3) \<Rightarrow> Some (Returns (None, Some err), s3)
     | Some (Returns (rollupTypes, None), s3) \<Rightarrow>
         Some (Returns (Some rollupTypes, None), s3))))))"

definition rollupManagerInspect ::
  "('c, 's, 'b, 'i, 'abi) env \<Rightarrow> inputArgs \<Rightarrow> 's
     \<Rightarrow> RollupManagerData option cmdResult \<times> 's" where
  "rollupManagerInspect env cdkInputArgs s0 =
    (case parseCDKArgs (DialContext env) cdkInputArgs s0 of
       (Fatal msg err, s1) \<Rightarrow> (Fatal msg err, s1)
     | (Panic msg, s1) \<Rightarrow> (Panic msg, s1)
     | (Returns (_, Some err), s1) \<Rightarrow> (Returns (None, Some err), s1)
     | (Returns (None, None), s1) \<Rightarrow> (Panic nilDereference, s1)
     | (Returns (Some cdkArgs, None), s1) \<Rightarrow>
    (case mustGetRPCClient (DialContext env) (a_rpcURL cdkArgs) s1 of
       (Fatal msg err, s2) \<Rightarrow> (Fatal msg err, s2)
     | (Panic msg, s2) \<Rightarrow> (Panic msg, s2)
     | (Returns rpcClient, s2) \<Rightarrow>
    (case parseRollupManagerArgs env cdkInputArgs cdkInputArgs cdkArgs of
       Fatal msg err \<Rightarrow> (Fatal msg err, s2)
     | Panic msg \<Rightarrow> (Panic msg, s2)
     | Returns (_, Some err) \<Rightarrow> (Returns (None, Some err), s2)
     | Returns (None, None) \<Rightarrow> (Panic nilDereference, s2)
     | Returns (Some rollupManagerArgs, None) \<Rightarrow>
    (case getRollupManager env cdkArgs rpcClient
            (m_rollupManagerAddress rollupManagerArgs) of
       Inl err \<Rightarrow> (Returns (None, Some err), s2)
     | Inr (rollupManager, _) \<Rightarrow>
    (case getRollupManagerData rollupManager s2 of
       ((_, Some err), s3) \<Rightarrow> (Returns (None, Some err), s3)
     | ((data, None), s3) \<Rightarrow> (Returns (Some data, None), s3))))))"

definition rollupManagerDump ::
  "('c, 's, 'b, 'i, 'abi) env \<Rightarrow> inputArgs \<Rightarrow> 's
     \<Rightarrow> (RollupManagerDumpData cmdResult \<times> 's) option" where
  "rollupManagerDump env cdkInputArgs s0 =
    (case parseCDKArgs (DialContext env) cdkInputArgs s0 of
       (Fatal msg err, s1) \<Rightarrow> Some (Fatal msg err, s1)
     | (Panic msg, s1) \<Rightarrow> Some (Panic msg, s1)
     | (Returns (_, Some err), s1) \<Rightarrow> Some (Returns (None, Some err), s1)
     | (Returns (None, None), s1) \<Rightarrow> Some (Panic nilDereference, s1)
     | (Returns (Some cdkArgs, None), s1) \<Rightarrow>
    (case mustGetRPCClient (DialContext env) (a_rpcURL cdkArgs) s1 of
       (Fatal msg err, s2) \<Rightarrow> Some (Fatal msg err, s2)
     | (Panic msg, s2) \<Rightarrow> Some (Panic msg, s2)
     | (Returns rpcClient, s2) \<Rightarrow>
    (case parseRollupManagerArgs env cdkInputArgs cdkInputArgs cdkArgs of
       Fatal msg err \<Rightarrow> Some (Fatal msg err, s2)
     | Panic msg \<Rightarrow> Some (Panic msg, s2)
     | Returns (_, Some err) \<Rightarrow> Some (Returns (None, Some err), s2)
     | Returns (None, None) \<Rightarrow> Some (Panic nilDereference, s2)
     | Returns (Some rollupManagerArgs, None) \<Rightarrow>
    (case getRollupManager env cdkArgs rpcClient
            (m_rollupManagerAddress rollupManagerArgs) of
       Inl err \<Rightarrow> Some (Returns (None, Some err), s2)
     | Inr (rollupManager, _) \<Rightarrow>
    (case getRollupManagerData rollupManager s2 of
       ((_, Some err), s3) \<Rightarrow> Some (Returns (None, Some err), s3)
     | ((data, None), s3) \<Rightarrow>
    (case getRollupManagerRollups (sliceRuntime env ''RollupData'') rollupManager s3 of
       None \<Rightarrow> None
     | Some (Fatal msg err, s4) \<Rightarrow> Some (Fatal msg err, s4)
     | Some (Panic msg, s4) \<Rightarrow> Some (Panic msg, s4)
     | Some (Returns (_, Some err), s4) \<Rightarrow> Some (Returns (None, Some err), s4)
     | Some (Returns (rollups, None), s4) \<Rightarrow>
    (case getRollupManagerRollupTypes (sliceRuntime env ''RollupTypeData'') rollupManager
            s4 of
       None \<Rightarrow> None
     | Some (Fatal msg err, s5) \<Rightarrow> Some (Fatal msg err, s5)
     | Some (Panic msg, s5) \<Rightarrow> Some (Panic msg, s5)
     | Some (Returns (_, Some err), s5) \<Rightarrow> Some (Returns (None, Some err), s5)
     | Some (Returns (rollupTypes, None), s5) \<Rightarrow>
         Some (Returns (Some \<lparr> dd_Data = data, dd_Rollups = rollups,
                               dd_RollupTypes = rollupTypes \<rparr>, None), s5))))))))"

text \<open>\<^verbatim>\<open>rollupManagerMonitor\<close>: the body is \<^verbatim>\<open>panic("not implemented")\<close>.\<close>

definition rollupManagerMonitor ::
  "('c, 's, 'b, 'i, 'abi) env \<Rightarrow> inputArgs \<Rightarrow> 's \<Rightarrow> (unit cmdResult \<times> 's) option" where
  "rollupManagerMonitor env cdkInputArgs s0 = Some (Panic ''not implemented'', s0)"

definition gerInspect ::
  "('c, 's, 'b, 'i, 'abi) env \<Rightarrow> inputArgs \<Rightarrow> 's \<Rightarrow> gerData option cmdResult \<times> 's" where
  "gerInspect env cdkInputArgs s0 =
    (case parseCDKArgs (DialContext env) cdkInputArgs s0 of
       (Fatal msg err, s1) \<Rightarrow> (Fatal msg err, s1)
     | (Panic msg, s1) \<Rightarrow> (Panic msg, s1)
     | (Returns (_, Some err), s1) \<Rightarrow> (Returns (None, Some err), s1)
     | (Returns (None, None), s1) \<Rightarrow> (Panic nilDereference, s1)
     | (Returns (Some cdkArgs, None), s1) \<Rightarrow>
    (case mustGetRPCClient (DialContext env) (a_rpcURL cdkArgs) s1 of
       (Fatal msg err, s2) \<Rightarrow> (Fatal msg err, s2)
     | (Panic msg, s2) \<Rightarrow> (Panic msg, s2)
     | (Returns rpcClient, s2) \<Rightarrow>
    (case parseRollupManagerArgs env cdkInputArgs cdkInputArgs cdkArgs of
       Fatal msg err \<Rightarrow> (Fatal msg err, s2)
     | Panic msg \<Rightarrow> (Panic msg, s2)
     | Returns (_, Some err) \<Rightarrow> (Returns (None, Some err), s2)
     | Returns (None, None) \<Rightarrow> (Panic nilDereference, s2)
     | Returns (Some rollupManagerArgs, None) \<Rightarrow>
    (case getRollupManager env cdkArgs rpcClient
            (m_rollupManagerAddress rollupManagerArgs) of
       Inl err \<Rightarrow> (Returns (None, Some err), s2)
     | Inr (rollupManager, _) \<Rightarrow>
    (case getRollupManagerData rollupManager s2 of
       ((_, Some err), s3) \<Rightarrow> (Returns (None, Some err), s3)
     | ((None, None), s3) \<Rightarrow> (Panic nilDereference, s3)
     | ((Some rollupManagerData, None), s3) \<Rightarrow>
    (case getBridge env cdkArgs rpcClient (rmd_BridgeAddress rollupManagerData) of
       Inl err \<Rightarrow> (Returns (None, Some err), s3)
     | Inr (bridge, _) \<Rightarrow>
    (case getBridgeData env bridge s3 of
       (Inl err, s4) \<Rightarrow> (Returns (None, Some err), s4)
     | (Inr bridgeData, s4) \<Rightarrow>
    (case getGER env cdkArgs rpcClient (bd_GlobalExitRootManager bridgeData) of
       Inl err \<Rightarrow> (Returns (None, Some err), s4)
     | Inr (ger, _) \<Rightarrow>
    (case getGERData (g_gerContractInterface ger) s4 of
       ((_, Some err), s5) \<Rightarrow> (Returns (None, Some err), s5)
     | ((data, None), s5) \<Rightarrow> (Returns (Some data, None), s5))))))))))"

definition gerDump ::
  "('c, 's, 'b, 'i, 'abi) env \<Rightarrow> inputArgs \<Rightarrow> 's \<Rightarrow> gerDumpData cmdResult \<times> 's" where
  "gerDump env cdkInputArgs s0 =
    (case parseCDKArgs (DialContext env) cdkInputArgs s0 of
       (Fatal msg err, s1) \<Rightarrow> (Fatal msg err, s1)
     | (Panic msg, s1) \<Rightarrow> (Panic msg, s1)
     | (Returns (_, Some err), s1) \<Rightarrow> (Returns (None, Some err), s1)
     | (Returns (None, None), s1) \<Rightarrow> (Panic nilDereference, s1)
     | (Returns (Some cdkArgs, None), s1) \<Rightarrow>
    (case mustGetRPCClient (DialContext env) (a_rpcURL cdkArgs) s1 of
       (Fatal msg err, s2) \<Rightarrow> (Fatal msg err, s2)
     | (Panic msg, s2) \<Rightarrow> (Panic msg, s2)
     | (Returns rpcClient, s2) \<Rightarrow>
    (case parseRollupManagerArgs env cdkInputArgs cdkInputArgs cdkArgs of
       Fatal msg err \<Rightarrow> (Fatal msg err, s2)
     | Panic msg \<Rightarrow> (Panic msg, s2)
     | Returns (_, Some err) \<Rightarrow> (Returns (None, Some err), s2)
     | Returns (None, None) \<Rightarrow> (Panic nilDereference, s2)
     | Returns (Some rollupManagerArgs, None) \<Rightarrow>
    (case getRollupManager env cdkArgs rpcClient
            (m_rollupManagerAddress rollupManagerArgs) of
       Inl err \<Rightarrow> (Returns (None, Some err), s2)
     | Inr (rollupManager, _) \<Rightarrow>
    (case getRollupManagerData rollupManager s2 of
       ((_, Some err), s3) \<Rightarrow> (Returns (None, Some err), s3)
     | ((None, None), s3) \<Rightarrow> (Panic nilDereference, s3)
     | ((Some rollupManagerData, None), s3) \<Rightarrow>
    (case getBridge env cdkArgs rpcClient (rmd_BridgeAddress rollupManagerData) of
       Inl err \<Rightarrow> (Returns (None, Some err), s3)
     | Inr (bridge, _) \<Rightarrow>
    (case getBridgeData env bridge s3 of
       (Inl err, s4) \<Rightarrow> (Returns (None, Some err), s4)
     | (Inr bridgeData, s4) \<Rightarrow>
    (case getGER env cdkArgs rpcClient (bd_GlobalExitRootManager bridgeData) of
       Inl err \<Rightarrow> (Returns (None, Some err), s4)
     | Inr (ger, _) \<Rightarrow>
    (case getGERData (g_gerContractInterface ger) s4 of
       ((_, Some err), s5) \<Rightarrow> (Returns (None, Some err), s5)
     | ((data, None), s5) \<Rightarrow> (Returns (Some \<lparr> gdd_Data = data \<rparr>, None), s5))))))))))"

definition gerMonitor ::
  "('c, 's, 'b, 'i, 'abi) env \<Rightarrow> inputArgs \<Rightarrow> 's \<Rightarrow> (unit cmdResult \<times> 's) option" where
  "gerMonitor env cdkInputArgs s0 =
    (case parseCDKArgs (DialContext env) cdkInputArgs s0 of
       (Fatal msg err, s1) \<Rightarrow> Some (Fatal msg err, s1)
     | (Panic msg, s1) \<Rightarrow> Some (Panic msg, s1)
     | (Returns (_, Some err), s1) \<Rightarrow> Some (Returns (None, Some err), s1)
     | (Returns (None, None), s1) \<Rightarrow> Some (Panic nilDereference, s1)
     | (Returns (Some cdkArgs, None), s1) \<Rightarrow>
    (case mustGetRPCClient (DialContext env) (a_rpcURL cdkArgs) s1 of
       (Fatal msg err, s2) \<Rightarrow> Some (Fatal msg err, s2)
     | (Panic msg, s2) \<Rightarrow> Some (Panic msg, s2)
     | (Returns rpcClient, s2) \<Rightarrow>
    (case parseRollupManagerArgs env cdkInputArgs cdkInputArgs cdkArgs of
       Fatal msg err \<Rightarrow> Some (Fatal msg err, s2)
     | Panic msg \<Rightarrow> Some (Panic msg, s2)
     | Returns (_, Some err) \<Rightarrow> Some (Returns (None, Some err), s2)
     | Returns (None, None) \<Rightarrow> Some (Panic nilDereference, s2)
     | Returns (Some rollupManagerArgs, None) \<Rightarrow>
    (case getRollupManager env cdkArgs rpcClient
            (m_rollupManagerAddress rollupManagerArgs) of
       Inl err \<Rightarrow> Some (Returns (None, Some err), s2)
     | Inr (rollupManager, _) \<Rightarrow>
    (case getRollupManagerData rollupManager s2 of
       ((_, Some err), s3) \<Rightarrow> Some (Returns (None, Some err), s3)
     | ((None, None), s3) \<Rightarrow> Some (Panic nilDereference, s3)
     | ((Some rollupManagerData, None), s3) \<Rightarrow>
    (case getBridge env cdkArgs rpcClient (rmd_BridgeAddress rollupManagerData) of
       Inl err \<Rightarrow> Some (Returns (None, Some err), s3)
     | Inr (bridge, _) \<Rightarrow>
    (case getBridgeData env bridge s3 of
       (Inl err, s4) \<Rightarrow> Some (Returns (None, Some err), s4)
     | (Inr bridgeData, s4) \<Rightarrow>
    (case getGER env cdkArgs rpcClient (bd_GlobalExitRootManager bridgeData) of
       Inl err \<Rightarrow> Some (Returns (None, Some err), s4)
     | Inr (ger, gerABI) \<Rightarrow>
    (case watchNewLogs env rpcClient
            \<lparr> cf_contractInstance = g_instance ger,
              cf_contractABI = gerABI,
              cf_blockchainFilter =
                \<lparr> fq_Addresses = [bd_GlobalExitRootManager bridgeData] \<rparr> \<rparr> s4 of
       None \<Rightarrow> None
     | Some (Some err, s5) \<Rightarrow> Some (Returns (None, Some err), s5)
     | Some (None, s5) \<Rightarrow> Some (Returns (None, None), s5))))))))))"

subsection \<open>The event monitor\<close>

text \<open>
  Modelled from the spec: \<^verbatim>\<open>watchNewLogs\<close>, the event monitor that \<^verbatim>\<open>gerMonitor\<close> calls, is
  not among the sources. \<open>watch\<close> follows section 4.4 of the specification on the log
  entries the transport delivers before the watch is cancelled, in the order of their
  delivery. For each entry that matches the address filter it looks up the event
  definition by the entry's topic signature (its first topic); an entry without a
  matching definition is skipped; an entry whose structure does not decode is reported as
  a decode error; the others are yielded as decoded events. The structural decoder of an
  event definition is a field of the definition.
\<close>

record logEntry =
  le_Address :: address
  le_Topics :: "hash list"
  le_Data :: "uint8 list"
  le_BlockNumber :: uint64
  le_Index :: nat

record 'v eventDefinition =
  ed_Name :: string
  ed_Signature :: hash
  ed_Decode :: "logEntry \<Rightarrow> error + (string \<times> 'v) list"

record 'v DecodedEvent =
  de_Name :: string
  de_Address :: address
  de_BlockNumber :: uint64
  de_Index :: nat
  de_Arguments :: "(string \<times> 'v) list"

datatype 'v monitorOutput = Decoded "'v DecodedEvent" | DecodeError logEntry error

text \<open>Modelled from the spec: the lookup of \<^verbatim>\<open>watchNewLogs\<close> (not among the sources) of "the
  matching event definition in the handle's ABI by the log's topic signature".\<close>

definition matchingEvent :: "'v eventDefinition list \<Rightarrow> logEntry \<Rightarrow> 'v eventDefinition option" where
  "matchingEvent abi entry =
    (case le_Topics entry of
       [] \<Rightarrow> None
     | topic # _ \<Rightarrow> find (\<lambda>ev. ed_Signature ev = topic) abi)"

text \<open>Modelled from the spec: the decoded event that \<^verbatim>\<open>watchNewLogs\<close> (not among the sources)
  yields: "an event name, the emitting address, the block/log position, and a mapping from
  argument name to decoded value".\<close>

definition toDecodedEvent ::
  "'v eventDefinition \<Rightarrow> logEntry \<Rightarrow> (string \<times> 'v) list \<Rightarrow> 'v DecodedEvent" where
  "toDecodedEvent ev entry arguments =
    \<lparr> de_Name = ed_Name ev, de_Address = le_Address entry,
      de_BlockNumber = le_BlockNumber entry, de_Index = le_Index entry,
      de_Arguments = arguments \<rparr>"

text \<open>Modelled from the spec: what \<^verbatim>\<open>watchNewLogs\<close> (not among the sources) does with one
  log entry, after the decode failure policy of section 4.4.\<close>

definition watchEntry ::
  "'v eventDefinition list \<Rightarrow> FilterQuery \<Rightarrow> logEntry \<Rightarrow> 'v monitorOutput list" where
  "watchEntry abi filterSpec entry =
    (if le_Address entry \<notin> set (fq_Addresses filterSpec) then []
     else
       (case matchingEvent abi entry of
          None \<Rightarrow> []
        | Some ev \<Rightarrow>
           (case ed_Decode ev entry of
              Inl err \<Rightarrow> [DecodeError entry err]
            | Inr arguments \<Rightarrow> [Decoded (toDecodedEvent ev entry arguments)])))"

text \<open>Modelled from the spec: \<^verbatim>\<open>watchNewLogs\<close> (not among the sources) on the entries
  delivered, in the order of their delivery.\<close>

fun watch ::
  "'v eventDefinition list \<Rightarrow> FilterQuery \<Rightarrow> logEntry list \<Rightarrow> 'v monitorOutput list" where
  "watch abi filterSpec [] = []"
| "watch abi filterSpec (entry # entries) =
     watchEntry abi filterSpec entry @ watch abi filterSpec entries"

subsection \<open>Observing the reads of a run\<close>

text \<open>
  The reads that an assembly function issues, as a list in the order of issue; each one is
  reduced to whether it failed. \<open>firstFailure\<close> runs them in that order from a state and
  returns the position (counted from \<open>n\<close>) of the first read that fails, with its error and
  the state it leaves.
\<close>

definition probe :: "('a, 's) call \<Rightarrow> 's \<Rightarrow> error option \<times> 's" where
  "probe c s = (case c s of (Inl err, s') \<Rightarrow> (Some err, s') | (Inr _, s') \<Rightarrow> (None, s'))"

fun firstFailure ::
  "('s \<Rightarrow> error option \<times> 's) list \<Rightarrow> nat \<Rightarrow> 's \<Rightarrow> (nat \<times> error \<times> 's) option" where
  "firstFailure [] n s = None"
| "firstFailure (r # rs) n s =
     (case r s of
        (Some err, s') \<Rightarrow> Some (n, err, s')
      | (None, s') \<Rightarrow> firstFailure rs (Suc n) s')"

definition rollupManagerReads ::
  "'s rollupManagerContractInterface \<Rightarrow> ('s \<Rightarrow> error option \<times> 's) list" where
  "rollupManagerReads h =
    [probe (rm_Pol h), probe (rm_BridgeAddress h), probe (rm_RollupCount h),
     probe (rm_GetBatchFee h), probe (rm_TotalSequencedBatches h),
     probe (rm_TotalVerifiedBatches h), probe (rm_LastAggregationTimestamp h),
     probe (rm_LastDeactivatedEmergencyStateTimestamp h)]"

definition gerReads :: "'s gerContractInterface \<Rightarrow> ('s \<Rightarrow> error option \<times> 's) list" where
  "gerReads h =
    [probe (ger_BridgeAddress h), probe (ger_DepositCount h),
     probe (ger_GetLastGlobalExitRoot h), probe (ger_GetRoot h),
     probe (ger_LastMainnetExitRoot h), probe (ger_LastRollupExitRoot h),
     probe (ger_RollupManager h)]"

text \<open>
  A rollup manager that records every call made on it: \<open>recording h\<close> behaves as \<open>h\<close> and
  appends the call to a log kept beside the state.
\<close>

datatype rmCall =
    CallPol | CallBridgeAddress | CallRollupCount | CallGetBatchFee
  | CallTotalSequencedBatches | CallTotalVerifiedBatches | CallLastAggregationTimestamp
  | CallLastDeactivatedEmergencyStateTimestamp
  | CallRollupIDToRollupData uint32 | CallRollupTypeCount | CallRollupTypeMap uint32
  | CallChainIDToRollupID uint64 | CallRollupAddressToID address

definition recorded :: "rmCall \<Rightarrow> ('a, 's) call \<Rightarrow> ('a, 's \<times> rmCall list) call" where
  "recorded c f = (\<lambda>(s, calls). case f s of (r, s') \<Rightarrow> (r, (s', calls @ [c])))"

definition unrecorded :: "('a, 's) call \<Rightarrow> ('a, 's \<times> rmCall list) call" where
  "unrecorded f = (\<lambda>(s, calls). case f s of (r, s') \<Rightarrow> (r, (s', calls)))"

definition recording ::
  "'s rollupManagerContractInterface \<Rightarrow> ('s \<times> rmCall list) rollupManagerContractInterface" where
  "recording h =
    \<lparr> rm_Pol = recorded CallPol (rm_Pol h),
      rm_BridgeAddress = recorded CallBridgeAddress (rm_BridgeAddress h),
      rm_RollupCount = recorded CallRollupCount (rm_RollupCount h),
      rm_GetBatchFee = recorded CallGetBatchFee (rm_GetBatchFee h),
      rm_TotalSequencedBatches =
        recorded CallTotalSequencedBatches (rm_TotalSequencedBatches h),
      rm_TotalVerifiedBatches = recorded CallTotalVerifiedBatches (rm_TotalVerifiedBatches h),
      rm_LastAggregationTimestamp =
        recorded CallLastAggregationTimestamp (rm_LastAggregationTimestamp h),
      rm_LastDeactivatedEmergencyStateTimestamp =
        recorded CallLastDeactivatedEmergencyStateTimestamp
          (rm_LastDeactivatedEmergencyStateTimestamp h),
      rm_RollupIDToRollupData =
        (\<lambda>i. recorded (CallRollupIDToRollupData i) (rm_RollupIDToRollupData h i)),
      rm_RollupTypeCount = recorded CallRollupTypeCount (rm_RollupTypeCount h),
      rm_RollupTypeMap = (\<lambda>i. recorded (CallRollupTypeMap i) (rm_RollupTypeMap h i)),
      rm_ChainIDToRollupID =
        (\<lambda>c. recorded (CallChainIDToRollupID c) (rm_ChainIDToRollupID h c)),
      rm_RollupAddressToID =
        (\<lambda>a. recorded (CallRollupAddressToID a) (rm_RollupAddressToID h a)) \<rparr>"

definition unrecordedGER ::
  "'s gerContractInterface \<Rightarrow> ('s \<times> rmCall list) gerContractInterface" where
  "unrecordedGER h =
    \<lparr> ger_BridgeAddress = unrecorded (ger_BridgeAddress h),
      ger_DepositCount = unrecorded (ger_DepositCount h),
      ger_GetLastGlobalExitRoot = unrecorded (ger_GetLastGlobalExitRoot h),
      ger_GetRoot = unrecorded (ger_GetRoot h),
      ger_LastMainnetExitRoot = unrecorded (ger_LastMainnetExitRoot h),
      ger_LastRollupExitRoot = unrecorded (ger_LastRollupExitRoot h),
      ger_RollupManager = unrecorded (ger_RollupManager h) \<rparr>"

text \<open>
  Indexed reads issued one after the other for a list of indices, up to the first one that
  fails; and the indices \<open>i, i + 1, ..., n\<close>.
\<close>

fun readEach :: "(uint32 \<Rightarrow> ('a, 's) call) \<Rightarrow> uint32 list \<Rightarrow> 's \<Rightarrow> (error + 'a list) \<times> 's" where
  "readEach f [] s = (Inr [], s)"
| "readEach f (i # is) s =
     (case f i s of
        (Inl err, s') \<Rightarrow> (Inl err, s')
      | (Inr v, s') \<Rightarrow>
          (case readEach f is s' of
             (Inl err, s'') \<Rightarrow> (Inl err, s'')
           | (Inr vs, s'') \<Rightarrow> (Inr (v # vs), s'')))"

definition indices :: "uint32 \<Rightarrow> uint32 \<Rightarrow> uint32 list" where
  "indices i n = map word_of_nat [unat i ..< Suc (unat n)]"

text \<open>The numeric value of a string of decimal digits.\<close>

definition decimalValue :: "string \<Rightarrow> nat" where
  "decimalValue ds = foldl (\<lambda>n c. n * 10 + (of_char c - 48)) 0 ds"

text \<open>The numeric value of a decimal integer: one or more decimal digits, with an optional
  sign before them; \<open>None\<close> for a string that is no decimal integer.\<close>

definition decimalNumber :: "string \<Rightarrow> int option" where
  "decimalNumber r =
    (case r of
       [] \<Rightarrow> None
     | c # cs \<Rightarrow>
         if c = CHR ''-'' then
           (if cs \<noteq> [] \<and> list_all isDigit cs then Some (- int (decimalValue cs)) else None)
         else if c = CHR ''+'' then
           (if cs \<noteq> [] \<and> list_all isDigit cs then Some (int (decimalValue cs)) else None)
         else if list_all isDigit r then Some (int (decimalValue r))
         else None)"

subsection \<open>Stubs\<close>

text \<open>
  Handles for concrete runs. Their state is the number of calls made so far; the call
  number \<open>failAt\<close> (counted from 1) fails, and \<open>failAt = 0\<close> never fails. The rollup manager
  reports \<open>count\<close> rollups and rollup types.
\<close>

definition outOfMemory :: string where
  "outOfMemory = ''fatal error: runtime: out of memory''"

text \<open>A runtime with room for slices of up to \<open>limit\<close> elements; \<^verbatim>\<open>append\<close> doubles the
  capacity of a full slice.\<close>

definition stubRuntime :: "nat \<Rightarrow> runtime" where
  "stubRuntime limit =
    \<lparr> rt_makeslice = (\<lambda>n. if n \<le> limit then None else Some outOfMemory),
      rt_growslice = (\<lambda>n. if 2 * n + 1 \<le> limit then Inr (2 * n + 1) else Inl outOfMemory) \<rparr>"

definition stubError :: error where
  "stubError = Error ''execution reverted''"

definition stubCall :: "nat \<Rightarrow> 'a \<Rightarrow> ('a, nat) call" where
  "stubCall failAt v k = (if Suc k = failAt then Inl stubError else Inr v, Suc k)"

definition stubRollup :: "uint32 \<Rightarrow> rollupDataReturn" where
  "stubRollup i =
    \<lparr> RollupContract = 0, ChainID = ucast i + 1000, Verifier = 0, ForkID = 12,
      LastLocalExitRoot = 0, LastBatchSequenced = 0, LastVerifiedBatch = 0,
      LastPendingState = 0, LastPendingStateConsolidated = 0,
      LastVerifiedBatchBeforeUpgrade = 0, RollupTypeID = 1, RollupCompatibilityID = 0 \<rparr>"

definition stubRollupType :: "uint32 \<Rightarrow> rollupTypeReturn" where
  "stubRollupType i =
    \<lparr> t_ConsensusImplementation = 0, t_Verifier = ucast i, t_ForkID = 12,
      t_RollupCompatibilityID = 0, t_Obsolete = False, t_Genesis = 0 \<rparr>"

definition stubRollupManager :: "nat \<Rightarrow> uint32 \<Rightarrow> nat rollupManagerContractInterface" where
  "stubRollupManager failAt count =
    \<lparr> rm_Pol = stubCall failAt 0x1111,
      rm_BridgeAddress = stubCall failAt 0xBBBB,
      rm_RollupCount = stubCall failAt count,
      rm_GetBatchFee = stubCall failAt 100,
      rm_TotalSequencedBatches = stubCall failAt 20,
      rm_TotalVerifiedBatches = stubCall failAt 10,
      rm_LastAggregationTimestamp = stubCall failAt 1700000000,
      rm_LastDeactivatedEmergencyStateTimestamp = stubCall failAt 0,
      rm_RollupIDToRollupData = (\<lambda>i. stubCall failAt (stubRollup i)),
      rm_RollupTypeCount = stubCall failAt count,
      rm_RollupTypeMap = (\<lambda>i. stubCall failAt (stubRollupType i)),
      rm_ChainIDToRollupID = (\<lambda>c. stubCall failAt 1),
      rm_RollupAddressToID = (\<lambda>a. stubCall failAt 1) \<rparr>"

definition stubGER :: "nat \<Rightarrow> nat gerContractInterface" where
  "stubGER failAt =
    \<lparr> ger_BridgeAddress = stubCall failAt 0xBBBB,
      ger_DepositCount = stubCall failAt 7,
      ger_GetLastGlobalExitRoot = stubCall failAt 1,
      ger_GetRoot = stubCall failAt 2,
      ger_LastMainnetExitRoot = stubCall failAt 3,
      ger_LastRollupExitRoot = stubCall failAt 4,
      ger_RollupManager = stubCall failAt 0xAAAA \<rparr>"

text \<open>
  An environment for concrete runs of the commands. A client is the URL it was dialled
  at and dialling fails for the URL \<open>''unreachable''\<close>; a bridge handle and the instance of
  a GER handle are the address they were resolved at; a resolver fails at the address 0;
  the rollup manager records its calls; the watch returns at once, with an error when the
  address of the filter is not the address of the contract instance it is given.
\<close>

definition stubEnv :: "nat \<Rightarrow> (string, nat \<times> rmCall list, address, address, unit) env" where
  "stubEnv failAt =
    \<lparr> DialContext =
        (\<lambda>url s. (if url = ''unreachable'' then Inl (Error ''dial tcp: connection refused'')
                   else Inr url, s)),
      IsHexAddress = (\<lambda>a. length a = 42),
      HexToAddress = (\<lambda>a. 0xAAAA),
      etrog_NewPolygonrollupmanager =
        (\<lambda>a c. Inr (recording (stubRollupManager failAt 3))),
      elderberry_NewPolygonrollupmanager =
        (\<lambda>a c. Inr (recording (stubRollupManager failAt 3))),
      banana_NewPolygonrollupmanager =
        (\<lambda>a c. Inr (recording (stubRollupManager failAt 3))),
      getRollupManager =
        (\<lambda>cdkArgs c a. if a = 0 then Inl (Error ''no contract'')
                         else Inr (recording (stubRollupManager failAt 3), ())),
      getBridge =
        (\<lambda>cdkArgs c a. if a = 0 then Inl (Error ''no contract'') else Inr (a, ())),
      getBridgeData =
        (\<lambda>b. unrecorded (stubCall failAt \<lparr> bd_GlobalExitRootManager = 0xCCCC \<rparr>)),
      getGER =
        (\<lambda>cdkArgs c a. if a = 0 then Inl (Error ''no contract'')
           else Inr (\<lparr> g_gerContractInterface = unrecordedGER (stubGER failAt),
                        g_instance = a \<rparr>, ())),
      watchNewLogs =
        (\<lambda>c f s. if fq_Addresses (cf_blockchainFilter f) = [cf_contractInstance f]
                   then Some (None, s)
                   else Some (Some (Error ''filter address is not the contract address''), s)),
      sliceRuntime = (\<lambda>elementType. stubRuntime 1048576) \<rparr>"

definition stubArgs :: "string \<Rightarrow> string \<Rightarrow> inputArgs" where
  "stubArgs url fork =
    \<lparr> rpcURL = Some url, forkID = Some fork,
      rollupManagerAddress = Some ''0x00000000000000000000000000000000000000AA'',
      rollupID = Some [], rollupChainID = Some [], rollupAddress = Some [] \<rparr>"

text \<open>
  The arguments and the parsed arguments of the concrete runs; environments in which the
  second dial fails, or in which the resolver of one kind of contract fails; and the eight reads of \<^verbatim>\<open>getRollupManagerData\<close> as a call log.
\<close>

definition stubURL :: string where
  "stubURL = ''http://localhost:8545''"

definition stubInput :: inputArgs where
  "stubInput = stubArgs stubURL ''12''"

definition stubCDKArgs :: "string parsedCDKArgs" where
  "stubCDKArgs = \<lparr> a_rpcURL = stubURL, a_rpcClient = stubURL, a_forkID = 12 \<rparr>"

definition stubRollupArgs :: "string \<Rightarrow> inputArgs" where
  "stubRollupArgs r = stubInput \<lparr> rollupID := Some r \<rparr>"

definition flakyDialEnv :: "(string, nat \<times> rmCall list, address, address, unit) env" where
  "flakyDialEnv =
    (stubEnv 0) \<lparr> DialContext :=
      (\<lambda>url (k, calls).
         (if k = 0 then Inr url else Inl (Error ''dial tcp: connection refused''),
          (Suc k, calls))) \<rparr>"

datatype contractKind = RollupManagerKind | BridgeKind | GERKind

definition brokenEnv ::
  "contractKind \<Rightarrow> (string, nat \<times> rmCall list, address, address, unit) env" where
  "brokenEnv kind =
    (stubEnv 0)
      \<lparr> getRollupManager :=
          (if kind = RollupManagerKind then (\<lambda>cdkArgs c a. Inl (Error ''no contract''))
           else getRollupManager (stubEnv 0)),
        getBridge :=
          (if kind = BridgeKind then (\<lambda>cdkArgs c a. Inl (Error ''no contract''))
           else getBridge (stubEnv 0)),
        getGER :=
          (if kind = GERKind then (\<lambda>cdkArgs c a. Inl (Error ''no contract''))
           else getGER (stubEnv 0)) \<rparr>"

definition allReads :: "rmCall list" where
  "allReads =
    [CallPol, CallBridgeAddress, CallRollupCount, CallGetBatchFee,
     CallTotalSequencedBatches, CallTotalVerifiedBatches, CallLastAggregationTimestamp,
     CallLastDeactivatedEmergencyStateTimestamp]"

text \<open>The error of \<^verbatim>\<open>parseRollupArgs\<close> for a rollup id it rejects.\<close>

definition rollupIDError :: "string \<Rightarrow> error" where
  "rollupIDError r = Error (''invalid rollupID: '' @ r @ '', it must be a valid uint32'')"

text \<open>An ABI with two events, and three log entries for it.\<close>

definition stubABI :: "nat eventDefinition list" where
  "stubABI =
    [\<lparr> ed_Name = ''UpdateL1InfoTree'', ed_Signature = 0xDA61,
       ed_Decode = (\<lambda>entry. if length (le_Topics entry) = 3
                     then Inr [(''mainnetExitRoot'', 1), (''rollupExitRoot'', 2)]
                     else Inl (Error ''topic count mismatch'')) \<rparr>,
     \<lparr> ed_Name = ''Initialized'', ed_Signature = 0x7F26,
       ed_Decode = (\<lambda>entry. Inr []) \<rparr>]"

definition stubLog :: "hash list \<Rightarrow> nat \<Rightarrow> logEntry" where
  "stubLog topics i =
    \<lparr> le_Address = 0xCCCC, le_Topics = topics, le_Data = [], le_BlockNumber = 100,
      le_Index = i \<rparr>"

section \<open>Snapshot assembly: all or nothing\<close>

lemma firstFailure_position:
  "firstFailure rs k s = Some (n, e, s') \<Longrightarrow> k \<le> n \<and> n < k + length rs"
proof (induction rs arbitrary: k s)
  case Nil
  then show ?case by simp
next
  case (Cons r rs)
  then show ?case by (fastforce split: prod.splits option.splits)
qed

lemma getRollupManagerData_failure:
  "firstFailure (rollupManagerReads rm) k s = Some (n, e, s') \<Longrightarrow>
   getRollupManagerData rm s = ((None, Some e), s')"
  by (auto simp: getRollupManagerData_def rollupManagerReads_def probe_def
      split: prod.splits sum.splits)

lemma getRollupManagerData_success:
  "firstFailure (rollupManagerReads rm) k s = None \<Longrightarrow>
   \<exists>d s'. getRollupManagerData rm s = ((Some d, None), s')"
  by (auto simp: getRollupManagerData_def rollupManagerReads_def probe_def
      split: prod.splits sum.splits)

lemma getGERData_failure:
  "firstFailure (gerReads g) k s = Some (n, e, s') \<Longrightarrow>
   getGERData g s = ((None, Some e), s')"
  by (auto simp: getGERData_def gerReads_def probe_def split: prod.splits sum.splits)

lemma getGERData_success:
  "firstFailure (gerReads g) k s = None \<Longrightarrow>
   \<exists>d s'. getGERData g s = ((Some d, None), s')"
  by (auto simp: getGERData_def gerReads_def probe_def split: prod.splits sum.splits)

text \<open>The stub that fails at its \<open>n\<close>-th call fails at position \<open>n\<close>, for each of the eight
  positions of \<^verbatim>\<open>getRollupManagerData\<close> and the seven of \<^verbatim>\<open>getGERData\<close>.\<close>

lemma stubRollupManager_fails_at:
  "n \<in> {1..8} \<Longrightarrow>
   firstFailure (rollupManagerReads (stubRollupManager n c)) (Suc 0) 0 =
     Some (n, stubError, n)"
  by (simp add: rollupManagerReads_def stubRollupManager_def probe_def stubCall_def)

lemma stubGER_fails_at:
  "n \<in> {1..7} \<Longrightarrow>
   firstFailure (gerReads (stubGER n)) (Suc 0) 0 = Some (n, stubError, n)"
  by (simp add: gerReads_def stubGER_def probe_def stubCall_def)

lemma stubRollupManager_never_fails:
  "firstFailure (rollupManagerReads (stubRollupManager 0 c)) (Suc 0) 0 = None"
  by (simp add: rollupManagerReads_def stubRollupManager_def probe_def stubCall_def)

lemma stubGER_never_fails: "firstFailure (gerReads (stubGER 0)) (Suc 0) 0 = None"
  by (simp add: gerReads_def stubGER_def probe_def stubCall_def)

text \<open>
  Claim C1. Snapshot assembly is atomic. For every rollup manager handle and every state:
  if one of the eight reads of \<^verbatim>\<open>getRollupManagerData\<close> fails, at whatever position \<open>n\<close>
  of the eight, the function returns \<^verbatim>\<open>nil\<close> for the snapshot and a non-nil error; if none
  fails it returns a snapshot and a \<^verbatim>\<open>nil\<close> error. The same holds for \<^verbatim>\<open>getGERData\<close> and its
  seven reads. So a partially built record is never returned.
\<close>

theorem snapshot_assembly_atomic:
  "(firstFailure (rollupManagerReads rm) 1 s = Some (n, e, s') \<longrightarrow>
      n \<in> {1..8} \<and> fst (getRollupManagerData rm s) = (None, Some e)) \<and>
   (firstFailure (rollupManagerReads rm) 1 s = None \<longrightarrow>
      (\<exists>d. fst (getRollupManagerData rm s) = (Some d, None))) \<and>
   (firstFailure (gerReads g) 1 t = Some (m, e', t') \<longrightarrow>
      m \<in> {1..7} \<and> fst (getGERData g t) = (None, Some e')) \<and>
   (firstFailure (gerReads g) 1 t = None \<longrightarrow>
      (\<exists>d. fst (getGERData g t) = (Some d, None)))"
proof (intro conjI impI)
  assume a: "firstFailure (rollupManagerReads rm) 1 s = Some (n, e, s')"
  from firstFailure_position[OF a] show "n \<in> {1..8}"
    by (simp add: rollupManagerReads_def)
  from getRollupManagerData_failure[OF a]
  show "fst (getRollupManagerData rm s) = (None, Some e)" by simp
next
  assume "firstFailure (rollupManagerReads rm) 1 s = None"
  from getRollupManagerData_success[OF this]
  show "\<exists>d. fst (getRollupManagerData rm s) = (Some d, None)" by auto
next
  assume a: "firstFailure (gerReads g) 1 t = Some (m, e', t')"
  from firstFailure_position[OF a] show "m \<in> {1..7}"
    by (simp add: gerReads_def)
  from getGERData_failure[OF a]
  show "fst (getGERData g t) = (None, Some e')" by simp
next
  assume "firstFailure (gerReads g) 1 t = None"
  from getGERData_success[OF this]
  show "\<exists>d. fst (getGERData g t) = (Some d, None)" by auto
qed

text \<open>The theorem at a rollup manager that fails at its third read and a GER handle that
  fails at its last one, and at handles that never fail.\<close>

theorem snapshot_assembly_atomic_witness:
  "fst (getRollupManagerData (stubRollupManager 3 3) 0) = (None, Some stubError) \<and>
   fst (getGERData (stubGER 7) 0) = (None, Some stubError) \<and>
   fst (fst (getRollupManagerData (stubRollupManager 0 3) 0)) \<noteq> None \<and>
   snd (fst (getRollupManagerData (stubRollupManager 0 3) 0)) = None \<and>
   fst (fst (getGERData (stubGER 0) 0)) \<noteq> None \<and>
   snd (fst (getGERData (stubGER 0) 0)) = None"
  using snapshot_assembly_atomic[of "stubRollupManager 3 3" 0 3 stubError 3
      "stubGER 7" 0 7 stubError 7]
    snapshot_assembly_atomic[of "stubRollupManager 0 3" 0 0 stubError 0 "stubGER 0" 0
      0 stubError 0]
  by (simp add: stubRollupManager_fails_at stubGER_fails_at stubRollupManager_never_fails
      stubGER_never_fails) auto

text \<open>
  Claim C5, as amended. The first read that fails ends the assembly at once: the state
  returned is the state that read left, so no later read is issued. The error returned is
  the error of that read, unchanged: nothing is added to it that names the field.
\<close>

theorem first_failure_returned_unchanged:
  "(firstFailure (rollupManagerReads rm) 1 s = Some (n, e, s') \<longrightarrow>
      getRollupManagerData rm s = ((None, Some e), s')) \<and>
   (firstFailure (gerReads g) 1 t = Some (m, e', t') \<longrightarrow>
      getGERData g t = ((None, Some e'), t'))"
  using getRollupManagerData_failure[of rm 1 s n e s'] getGERData_failure[of g 1 t m e' t']
  by blast

theorem first_failure_returned_unchanged_witness:
  "getRollupManagerData (stubRollupManager 3 3) 0 = ((None, Some stubError), 3) \<and>
   getGERData (stubGER 7) 0 = ((None, Some stubError), 7)"
  using first_failure_returned_unchanged[of "stubRollupManager 3 3" 0 3 stubError 3
      "stubGER 7" 0 7 stubError 7]
  by (simp add: stubRollupManager_fails_at stubGER_fails_at)

text \<open>
  Claim C5 as stated fails: the error returned does not identify the field. In one run the
  first read (\<^verbatim>\<open>Pol\<close>) fails, in the other the second (\<^verbatim>\<open>BridgeAddress\<close>), with the same
  error; the caller receives the same value in both.
\<close>

theorem returned_error_untagged_counterexample:
  "firstFailure (rollupManagerReads (stubRollupManager 1 3)) 1 0 = Some (1, stubError, 1) \<and>
   firstFailure (rollupManagerReads (stubRollupManager 2 3)) 1 0 = Some (2, stubError, 2) \<and>
   fst (getRollupManagerData (stubRollupManager 1 3) 0) = (None, Some stubError) \<and>
   fst (getRollupManagerData (stubRollupManager 2 3) 0) = (None, Some stubError)"
  by (simp add: stubRollupManager_fails_at
      getRollupManagerData_failure[OF stubRollupManager_fails_at, of "Suc 0"]
      getRollupManagerData_failure[OF stubRollupManager_fails_at, of 2])

section \<open>Enumeration of rollups and rollup types\<close>

lemma succ_unat: "(i::uint32) \<le> n \<Longrightarrow> n \<noteq> - 1 \<Longrightarrow> unat (i + 1) = Suc (unat i)"
  by (metis (no_types, lifting) add.commute add.right_neutral
    minus_add_cancel nle_le unatSuc word_order.extremum)

lemma indices_empty: "\<not> i \<le> n \<Longrightarrow> indices i n = []"
  by (simp add: indices_def word_le_nat_alt)

lemma indices_step:
  assumes "i \<le> n" "n \<noteq> - 1"
  shows "indices i n = i # indices (i + 1) n"
proof -
  have le: "unat i \<le> unat n" using assms(1) by (simp add: word_le_nat_alt)
  have u: "unat (i + 1) = Suc (unat i)" using assms by (rule succ_unat)
  have "[unat i ..< Suc (unat n)] = unat i # [Suc (unat i) ..< Suc (unat n)]"
    using le by (simp add: upt_conv_Cons)
  thus ?thesis by (simp add: indices_def u)
qed

text \<open>
  Below \<open>2^32 - 1\<close>, and with a capacity that holds the records still to come, the loop
  is the sequence of the indexed reads \<open>i, ..., n\<close>, and \<^verbatim>\<open>append\<close> never grows the slice.
\<close>

lemma rollupsLoop_readEach:
  "n \<noteq> - 1 \<Longrightarrow> unat i \<le> Suc (unat n) \<Longrightarrow>
   length acc + (Suc (unat n) - unat i) \<le> cap \<Longrightarrow>
   rollupsLoop rt h n i cap acc s =
     Some (case readEach (rm_RollupIDToRollupData h) (indices i n) s of
             (Inl err, s') \<Rightarrow> (Returns (None, Some err), s')
           | (Inr vs, s') \<Rightarrow> (Returns (Some (acc @ map toRollupData vs), None), s'))"
proof (induction "Suc (unat n) - unat i" arbitrary: i acc s)
  case 0
  hence "\<not> i \<le> n" by (simp add: word_le_nat_alt)
  thus ?case by (subst rollupsLoop.simps) (simp add: indices_empty)
next
  case (Suc k)
  hence le: "i \<le> n" by (simp add: word_le_nat_alt)
  have st: "indices i n = i # indices (i + 1) n" using le Suc.prems(1) by (rule indices_step)
  have u: "unat (i + 1) = Suc (unat i)" using le Suc.prems(1) by (rule succ_unat)
  have k: "k = Suc (unat n) - unat (i + 1)" using Suc.hyps(2) u by simp
  have b: "unat (i + 1) \<le> Suc (unat n)" using le u by (simp add: word_le_nat_alt)
  have room: "length acc < cap" using Suc.prems(3) Suc.hyps(2) by simp
  have c: "length (acc @ [x]) + (Suc (unat n) - unat (i + 1)) \<le> cap" for x
    using Suc.prems(3) Suc.hyps(2) u by simp
  show ?case
    apply (subst rollupsLoop.simps)
    apply (simp add: le st room split: prod.splits sum.splits)
    apply (auto simp: Suc.hyps(1)[OF k Suc.prems(1) b c])
    done
qed

lemma rollupTypesLoop_readEach:
  "n \<noteq> - 1 \<Longrightarrow> unat i \<le> Suc (unat n) \<Longrightarrow>
   length acc + (Suc (unat n) - unat i) \<le> cap \<Longrightarrow>
   rollupTypesLoop rt h n i cap acc s =
     Some (case readEach (rm_RollupTypeMap h) (indices i n) s of
             (Inl err, s') \<Rightarrow> (Returns (None, Some err), s')
           | (Inr vs, s') \<Rightarrow> (Returns (Some (acc @ map toRollupTypeData vs), None), s'))"
proof (induction "Suc (unat n) - unat i" arbitrary: i acc s)
  case 0
  hence "\<not> i \<le> n" by (simp add: word_le_nat_alt)
  thus ?case by (subst rollupTypesLoop.simps) (simp add: indices_empty)
next
  case (Suc k)
  hence le: "i \<le> n" by (simp add: word_le_nat_alt)
  have st: "indices i n = i # indices (i + 1) n" using le Suc.prems(1) by (rule indices_step)
  have u: "unat (i + 1) = Suc (unat i)" using le Suc.prems(1) by (rule succ_unat)
  have k: "k = Suc (unat n) - unat (i + 1)" using Suc.hyps(2) u by simp
  have b: "unat (i + 1) \<le> Suc (unat n)" using le u by (simp add: word_le_nat_alt)
  have room: "length acc < cap" using Suc.prems(3) Suc.hyps(2) by simp
  have c: "length (acc @ [x]) + (Suc (unat n) - unat (i + 1)) \<le> cap" for x
    using Suc.prems(3) Suc.hyps(2) u by simp
  show ?case
    apply (subst rollupTypesLoop.simps)
    apply (simp add: le st room split: prod.splits sum.splits)
    apply (auto simp: Suc.hyps(1)[OF k Suc.prems(1) b c])
    done
qed

lemma readEach_recording_rollups:
  "readEach (rm_RollupIDToRollupData h) is s = (Inr vs, s') \<Longrightarrow>
   readEach (rm_RollupIDToRollupData (recording h)) is (s, calls) =
     (Inr vs, (s', calls @ map CallRollupIDToRollupData is))"
proof (induction "is" arbitrary: s calls vs)
  case Nil
  then show ?case by simp
next
  case (Cons i "is")
  then show ?case
    by (auto simp: recording_def recorded_def split: prod.splits sum.splits)
qed

lemma readEach_recording_rollupTypes:
  "readEach (rm_RollupTypeMap h) is s = (Inr vs, s') \<Longrightarrow>
   readEach (rm_RollupTypeMap (recording h)) is (s, calls) =
     (Inr vs, (s', calls @ map CallRollupTypeMap is))"
proof (induction "is" arbitrary: s calls vs)
  case Nil
  then show ?case by simp
next
  case (Cons i "is")
  then show ?case
    by (auto simp: recording_def recorded_def split: prod.splits sum.splits)
qed

lemma readEach_length: "readEach f is s = (Inr vs, s') \<Longrightarrow> length vs = length is"
  by (induction "is" arbitrary: s vs) (auto split: prod.splits sum.splits)

lemma indices_from_1: "indices 1 n = map word_of_nat [1 ..< Suc (unat n)]"
  by (simp add: indices_def)

lemma getRollupManagerRollups_recorded:
  assumes count: "rm_RollupCount h s = (Inr n, s1)"
    and bound: "n \<noteq> - 1"
    and room: "rt_makeslice rt (unat n) = None"
    and reads: "readEach (rm_RollupIDToRollupData h) (map word_of_nat [1 ..< Suc (unat n)]) s1
                  = (Inr vs, s2)"
  shows "getRollupManagerRollups rt (recording h) (s, []) =
           Some (Returns (Some (map toRollupData vs), None),
                 (s2, CallRollupCount #
                        map (\<lambda>k. CallRollupIDToRollupData (word_of_nat k)) [1 ..< Suc (unat n)]))"
proof -
  have c: "rm_RollupCount (recording h) (s, []) = (Inr n, (s1, [CallRollupCount]))"
    using count by (simp add: recording_def recorded_def)
  have r: "readEach (rm_RollupIDToRollupData (recording h)) (indices 1 n) (s1, [CallRollupCount])
             = (Inr vs, (s2, [CallRollupCount] @ map CallRollupIDToRollupData (indices 1 n)))"
    using reads by (simp only: indices_from_1 readEach_recording_rollups)
  have b: "unat (1::uint32) \<le> Suc (unat n)" by simp
  have f: "length ([]::RollupData list) + (Suc (unat n) - unat (1::uint32)) \<le> unat n" by simp
  from rollupsLoop_readEach[OF bound b f, of rt "recording h" "(s1, [CallRollupCount])"]
  have l: "rollupsLoop rt (recording h) n 1 (unat n) [] (s1, [CallRollupCount]) =
             Some (Returns (Some (map toRollupData vs), None),
                   (s2, [CallRollupCount] @ map CallRollupIDToRollupData (indices 1 n)))"
    by (simp add: r)
  have e: "map CallRollupIDToRollupData (indices 1 n) =
             map (\<lambda>k. CallRollupIDToRollupData (word_of_nat k)) [1 ..< Suc (unat n)]"
    by (simp add: indices_def del: upt_Suc)
  show ?thesis
    by (simp add: getRollupManagerRollups_def c room l e del: upt_Suc)
qed

lemma getRollupManagerRollupTypes_recorded:
  assumes count: "rm_RollupTypeCount h s = (Inr n, s1)"
    and bound: "n \<noteq> - 1"
    and room: "rt_makeslice rt (unat n) = None"
    and reads: "readEach (rm_RollupTypeMap h) (map word_of_nat [1 ..< Suc (unat n)]) s1
                  = (Inr vs, s2)"
  shows "getRollupManagerRollupTypes rt (recording h) (s, []) =
           Some (Returns (Some (map toRollupTypeData vs), None),
                 (s2, CallRollupTypeCount #
                        map (\<lambda>k. CallRollupTypeMap (word_of_nat k)) [1 ..< Suc (unat n)]))"
proof -
  have c: "rm_RollupTypeCount (recording h) (s, []) = (Inr n, (s1, [CallRollupTypeCount]))"
    using count by (simp add: recording_def recorded_def)
  have r: "readEach (rm_RollupTypeMap (recording h)) (indices 1 n) (s1, [CallRollupTypeCount])
             = (Inr vs, (s2, [CallRollupTypeCount] @ map CallRollupTypeMap (indices 1 n)))"
    using reads by (simp only: indices_from_1 readEach_recording_rollupTypes)
  have b: "unat (1::uint32) \<le> Suc (unat n)" by simp
  have f: "length ([]::RollupTypeData list) + (Suc (unat n) - unat (1::uint32)) \<le> unat n"
    by simp
  from rollupTypesLoop_readEach[OF bound b f, of rt "recording h"
      "(s1, [CallRollupTypeCount])"]
  have l: "rollupTypesLoop rt (recording h) n 1 (unat n) [] (s1, [CallRollupTypeCount]) =
             Some (Returns (Some (map toRollupTypeData vs), None),
                   (s2, [CallRollupTypeCount] @ map CallRollupTypeMap (indices 1 n)))"
    by (simp add: r)
  have e: "map CallRollupTypeMap (indices 1 n) =
             map (\<lambda>k. CallRollupTypeMap (word_of_nat k)) [1 ..< Suc (unat n)]"
    by (simp add: indices_def del: upt_Suc)
  show ?thesis
    by (simp add: getRollupManagerRollupTypes_def c room l e del: upt_Suc)
qed

text \<open>
  At the count \<open>2^32 - 1\<close> the counter wraps around to 0 after the last index and
  \<^verbatim>\<open>i <= rollupCount\<close> stays true. With indexed reads that always succeed the function then
  returns nothing to its caller, whatever the runtime does: the process dies in \<^verbatim>\<open>make\<close>,
  or it dies when \<^verbatim>\<open>append\<close> grows the slice, or the loop goes on for ever.
\<close>

lemma rollupsLoop_max_no_return:
  assumes "rollupsLoop rt h n i cap acc s = Some y"
  shows "(\<forall>i t. \<exists>v t'. rm_RollupIDToRollupData h i t = (Inr v, t')) \<longrightarrow> n = - 1 \<longrightarrow>
         (\<forall>r. fst y \<noteq> Returns r)"
proof (rule rollupsLoop.raw_induct
    [where P = "\<lambda>rt h n i cap acc s y.
       (\<forall>i t. \<exists>v t'. rm_RollupIDToRollupData h i t = (Inr v, t')) \<longrightarrow> n = - 1 \<longrightarrow>
       (\<forall>r. fst y \<noteq> Returns r)", OF _ assms])
  fix f rt h n i cap acc s y
  assume IH: "\<And>rt h n i cap acc s y. f rt h n i cap acc s = Some y \<Longrightarrow>
         (\<forall>i t. \<exists>v t'. rm_RollupIDToRollupData h i t = (Inr v, t')) \<longrightarrow> n = - 1 \<longrightarrow>
         (\<forall>r. fst y \<noteq> Returns r)"
    and body: "(if i \<le> n
      then case rm_RollupIDToRollupData h i s of
           (Inl err, s') \<Rightarrow> Some (Returns (None, Some err), s')
           | (Inr rollupData, s') \<Rightarrow>
               if length acc < cap
               then f rt h n (i + 1) cap (acc @ [toRollupData rollupData]) s'
               else (case rt_growslice rt cap of
                       Inl msg \<Rightarrow> Some (Panic msg, s')
                     | Inr grown \<Rightarrow>
                         f rt h n (i + 1) grown (acc @ [toRollupData rollupData]) s')
      else Some (Returns (Some acc, None), s)) = Some y"
  show "(\<forall>i t. \<exists>v t'. rm_RollupIDToRollupData h i t = (Inr v, t')) \<longrightarrow> n = - 1 \<longrightarrow>
        (\<forall>r. fst y \<noteq> Returns r)"
  proof (intro impI)
    assume ok: "\<forall>i t. \<exists>v t'. rm_RollupIDToRollupData h i t = (Inr v, t')" and n: "n = - 1"
    obtain v t' where r: "rm_RollupIDToRollupData h i s = (Inr v, t')"
      using ok by blast
    show "\<forall>r. fst y \<noteq> Returns r"
    proof (cases "length acc < cap")
      case True
      with body have "f rt h (- 1) (i + 1) cap (acc @ [toRollupData v]) t' = Some y"
        by (simp add: n r)
      from IH[OF this] ok show ?thesis by simp
    next
      case False
      show ?thesis
      proof (cases "rt_growslice rt cap")
        case (Inl msg)
        with body False have "y = (Panic msg, t')" by (simp add: n r)
        then show ?thesis by simp
      next
        case (Inr grown)
        with body False
        have "f rt h (- 1) (i + 1) grown (acc @ [toRollupData v]) t' = Some y"
          by (simp add: n r)
        from IH[OF this] ok show ?thesis by simp
      qed
    qed
  qed
qed

lemma getRollupManagerRollups_max_no_return:
  assumes count: "rm_RollupCount h s = (Inr (- 1), s1)"
    and ok: "\<forall>i t. \<exists>v t'. rm_RollupIDToRollupData h i t = (Inr v, t')"
  shows "getRollupManagerRollups rt h s \<noteq> Some (Returns r, s')"
proof
  assume a: "getRollupManagerRollups rt h s = Some (Returns r, s')"
  show False
  proof (cases "rt_makeslice rt (unat (- 1 :: uint32))")
    case (Some msg)
    with a count show False by (simp add: getRollupManagerRollups_def)
  next
    case None
    with a count
    have "rollupsLoop rt h (- 1) 1 (unat (- 1 :: uint32)) [] s1 = Some (Returns r, s')"
      by (simp add: getRollupManagerRollups_def)
    from rollupsLoop_max_no_return[OF this] ok show False by simp
  qed
qed

lemma stub_never_fails:
  "\<forall>i t. \<exists>v t'. rm_RollupIDToRollupData (stubRollupManager 0 c) i t = (Inr v, t')"
  by (simp add: stubRollupManager_def stubCall_def)

lemma indices_1_3: "indices 1 3 = [1, 2, 3]"
  by (simp add: indices_def upt_rec)

text \<open>
  Claim C4, as amended. For every rollup manager handle whose count read returns a count
  \<open>n\<close> below \<open>2^32 - 1\<close>, when the runtime allocates the slice of capacity \<open>n\<close> and the
  indexed reads at 1, 2, ..., \<open>n\<close>, issued in that order, all succeed with the values
  \<open>vs\<close>: \<^verbatim>\<open>getRollupManagerRollups\<close> issues the count read first and then exactly the indexed
  reads 1, 2, ..., \<open>n\<close> in ascending order (the log of the recording handle), and returns
  the \<open>n\<close> records made from \<open>vs\<close>, in that order. The same holds for
  \<^verbatim>\<open>getRollupManagerRollupTypes\<close>.
\<close>

theorem enumeration_one_based_contiguous:
  "(rm_RollupCount h s = (Inr n, s1) \<and> n \<noteq> - 1 \<and> rt_makeslice rt (unat n) = None \<and>
    readEach (rm_RollupIDToRollupData h) (map word_of_nat [1 ..< Suc (unat n)]) s1 = (Inr vs, s2)
    \<longrightarrow>
      getRollupManagerRollups rt (recording h) (s, []) =
        Some (Returns (Some (map toRollupData vs), None),
              (s2, CallRollupCount #
                     map (\<lambda>k. CallRollupIDToRollupData (word_of_nat k)) [1 ..< Suc (unat n)]))
      \<and> length vs = unat n) \<and>
   (rm_RollupTypeCount h t = (Inr m, t1) \<and> m \<noteq> - 1 \<and> rt_makeslice rt' (unat m) = None \<and>
    readEach (rm_RollupTypeMap h) (map word_of_nat [1 ..< Suc (unat m)]) t1 = (Inr ws, t2)
    \<longrightarrow>
      getRollupManagerRollupTypes rt' (recording h) (t, []) =
        Some (Returns (Some (map toRollupTypeData ws), None),
              (t2, CallRollupTypeCount #
                     map (\<lambda>k. CallRollupTypeMap (word_of_nat k)) [1 ..< Suc (unat m)]))
      \<and> length ws = unat m)"
  using getRollupManagerRollups_recorded[of h s n s1 rt vs s2]
    getRollupManagerRollupTypes_recorded[of h t m t1 rt' ws t2]
    readEach_length[of "rm_RollupIDToRollupData h" _ s1 vs s2]
    readEach_length[of "rm_RollupTypeMap h" _ t1 ws t2]
  by (auto simp del: upt_Suc)

theorem enumeration_one_based_contiguous_witness:
  "getRollupManagerRollups (stubRuntime 1048576) (recording (stubRollupManager 0 3)) (0, []) =
     Some (Returns (Some (map toRollupData [stubRollup 1, stubRollup 2, stubRollup 3]), None),
           (4, [CallRollupCount, CallRollupIDToRollupData 1, CallRollupIDToRollupData 2,
                CallRollupIDToRollupData 3])) \<and>
   getRollupManagerRollupTypes (stubRuntime 1048576) (recording (stubRollupManager 0 3))
     (0, []) =
     Some (Returns (Some (map toRollupTypeData
                      [stubRollupType 1, stubRollupType 2, stubRollupType 3]), None),
           (4, [CallRollupTypeCount, CallRollupTypeMap 1, CallRollupTypeMap 2,
                CallRollupTypeMap 3]))"
  using enumeration_one_based_contiguous[where h = "stubRollupManager 0 3" and s = 0
      and n = 3 and ?s1.0 = 1 and rt = "stubRuntime 1048576"
      and vs = "[stubRollup 1, stubRollup 2, stubRollup 3]" and ?s2.0 = 4
      and t = 0 and m = 3 and ?t1.0 = 1 and rt' = "stubRuntime 1048576"
      and ws = "[stubRollupType 1, stubRollupType 2, stubRollupType 3]" and ?t2.0 = 4]
  by (simp add: stubRollupManager_def stubCall_def stubRuntime_def upt_rec)

text \<open>
  Claim C4 as stated fails, at each of three handles. With a count of 3 and a second
  indexed read that fails, two indexed reads are issued and no record is returned. With a
  count of \<open>2^32 - 1\<close> and a runtime that has no room for a slice of that capacity, the
  process dies in \<^verbatim>\<open>make\<close> after the count read, before any indexed read. With the same
  count, reads that always succeed and a runtime that has the room, the function returns
  nothing to its caller.
\<close>

theorem enumeration_counterexample:
  "getRollupManagerRollups (stubRuntime 1048576) (recording (stubRollupManager 3 3)) (0, []) =
     Some (Returns (None, Some stubError),
           (3, [CallRollupCount, CallRollupIDToRollupData 1, CallRollupIDToRollupData 2])) \<and>
   getRollupManagerRollups (stubRuntime 1048576) (recording (stubRollupManager 0 4294967295))
     (0, []) = Some (Panic outOfMemory, (1, [CallRollupCount])) \<and>
   (case getRollupManagerRollups (stubRuntime 4294967296) (stubRollupManager 0 4294967295) 0 of
      Some (Returns r, s') \<Rightarrow> False
    | _ \<Rightarrow> True)"
proof (intro conjI)
  have l: "rollupsLoop rt h 3 1 3 [] s =
             Some (case readEach (rm_RollupIDToRollupData h) [1, 2, 3] s of
                     (Inl err, s') \<Rightarrow> (Returns (None, Some err), s')
                   | (Inr vs, s') \<Rightarrow> (Returns (Some ([] @ map toRollupData vs), None), s'))"
    for rt and h :: "(nat \<times> rmCall list) rollupManagerContractInterface" and s
    using rollupsLoop_readEach[of 3 1 "[]" 3 rt h s] by (simp add: indices_1_3)
  show "getRollupManagerRollups (stubRuntime 1048576) (recording (stubRollupManager 3 3))
          (0, []) =
     Some (Returns (None, Some stubError),
           (3, [CallRollupCount, CallRollupIDToRollupData 1, CallRollupIDToRollupData 2]))"
    by (simp add: getRollupManagerRollups_def l
        recording_def recorded_def stubRollupManager_def stubCall_def stubRuntime_def)
next
  show "getRollupManagerRollups (stubRuntime 1048576)
          (recording (stubRollupManager 0 4294967295)) (0, []) =
        Some (Panic outOfMemory, (1, [CallRollupCount]))"
    by (simp add: getRollupManagerRollups_def recording_def recorded_def
        stubRollupManager_def stubCall_def stubRuntime_def)
next
  have m: "(4294967295::uint32) = - 1" by simp
  have c: "rm_RollupCount (stubRollupManager 0 (- 1)) 0 = (Inr (- 1), 1)"
    by (simp add: stubRollupManager_def stubCall_def)
  note no = getRollupManagerRollups_max_no_return[OF c stub_never_fails,
      of "stubRuntime 4294967296"]
  show "case getRollupManagerRollups (stubRuntime 4294967296)
               (stubRollupManager 0 4294967295) 0 of
          Some (Returns r, s') \<Rightarrow> False
        | _ \<Rightarrow> True"
    unfolding m using no by (auto split: option.splits outcome.splits)
qed

section \<open>Runs of the stubs\<close>

lemma stubEnv_prefix:
  "parseCDKArgs (DialContext (stubEnv k)) stubInput (0, []) =
     (Returns (Some stubCDKArgs, None), (0, []))"
  "mustGetRPCClient (DialContext (stubEnv k)) (a_rpcURL stubCDKArgs) (0, []) =
     (Returns stubURL, (0, []))"
  "parseRollupManagerArgs (stubEnv k) stubInput stubInput stubCDKArgs =
     Returns (Some \<lparr> m_rollupManager = Some (recording (stubRollupManager k 3)),
                      m_rollupManagerAddress = 0xAAAA \<rparr>, None)"
  by (simp_all add: parseCDKArgs_def mustGetRPCClient_def stubEnv_def stubArgs_def
      stubInput_def stubCDKArgs_def stubURL_def
      knownForks_def banana_def etrog_def elderberry_def parseRollupManagerArgs_def
      bindRollupManager_def knownRollupManagerAddresses_def checkAddressArg_def)

lemma brokenEnv_prefix:
  "parseCDKArgs (DialContext (brokenEnv k)) stubInput (0, []) =
     (Returns (Some stubCDKArgs, None), (0, []))"
  "mustGetRPCClient (DialContext (brokenEnv k)) (a_rpcURL stubCDKArgs) (0, []) =
     (Returns stubURL, (0, []))"
  "parseRollupManagerArgs (brokenEnv k) stubInput stubInput stubCDKArgs =
     Returns (Some \<lparr> m_rollupManager = Some (recording (stubRollupManager 0 3)),
                      m_rollupManagerAddress = 0xAAAA \<rparr>, None)"
  by (simp_all add: parseCDKArgs_def mustGetRPCClient_def stubEnv_def stubArgs_def
      stubInput_def stubCDKArgs_def stubURL_def brokenEnv_def
      knownForks_def banana_def etrog_def elderberry_def parseRollupManagerArgs_def
      bindRollupManager_def knownRollupManagerAddresses_def checkAddressArg_def)

lemma stub_getRollupManagerData:
  "getRollupManagerData (recording (stubRollupManager 0 3)) (0, []) =
     ((Some \<lparr> rmd_Pol = 0x1111, rmd_BridgeAddress = 0xBBBB, rmd_RollupCount = 3,
               rmd_BatchFee = 100, rmd_TotalSequencedBatches = 20,
               rmd_TotalVerifiedBatches = 10, rmd_LastAggregationTimestamp = 1700000000,
               rmd_LastDeactivatedEmergencyStateTimestamp = 0 \<rparr>, None),
      (8, allReads))"
  by (simp add: getRollupManagerData_def recording_def recorded_def stubRollupManager_def
      stubCall_def allReads_def)

lemma stub_getRollupManagerData_9:
  "getRollupManagerData (recording (stubRollupManager 9 3)) (0, []) =
     ((Some \<lparr> rmd_Pol = 0x1111, rmd_BridgeAddress = 0xBBBB, rmd_RollupCount = 3,
               rmd_BatchFee = 100, rmd_TotalSequencedBatches = 20,
               rmd_TotalVerifiedBatches = 10, rmd_LastAggregationTimestamp = 1700000000,
               rmd_LastDeactivatedEmergencyStateTimestamp = 0 \<rparr>, None),
      (8, allReads))"
  by (simp add: getRollupManagerData_def recording_def recorded_def stubRollupManager_def
      stubCall_def allReads_def)

lemma stub_getRollupManagerData_3:
  "getRollupManagerData (recording (stubRollupManager 3 3)) (0, []) =
     ((None, Some stubError), (3, [CallPol, CallBridgeAddress, CallRollupCount]))"
  by (simp add: getRollupManagerData_def recording_def recorded_def stubRollupManager_def
      stubCall_def)

lemma stub_getGERData:
  "getGERData (unrecordedGER (stubGER 0)) (9, calls) =
     ((Some \<lparr> gd_BridgeAddress = 0xBBBB, gd_DepositCount = 7, gd_GetLastGlobalExitRoot = 1,
               gd_Root = 2, gd_LastMainnetExitRoot = 3, gd_LastRollupExitRoot = 4,
               gd_RollupManager = 0xAAAA \<rparr>, None), (16, calls))"
  by (simp add: getGERData_def unrecordedGER_def unrecorded_def stubGER_def stubCall_def)

lemma stub_gerMonitor:
  "gerMonitor (stubEnv 0) stubInput (0, []) = Some (Returns (None, None), (9, allReads))"
  apply (simp add: gerMonitor_def stubEnv_prefix)
  apply (simp add: stubEnv_def stub_getRollupManagerData unrecorded_def stubCall_def)
  done

lemma stub_firstFailure_5:
  "firstFailure (rollupManagerReads (recording (stubRollupManager 5 3))) (Suc 0) (0, []) =
     Some (5, stubError,
           (5, [CallPol, CallBridgeAddress, CallRollupCount, CallGetBatchFee,
                CallTotalSequencedBatches]))"
  by (simp add: rollupManagerReads_def probe_def recording_def recorded_def
      stubRollupManager_def stubCall_def)

lemma stub_resolvers:
  "getRollupManager (stubEnv k) stubCDKArgs stubURL 0xAAAA =
     Inr (recording (stubRollupManager k 3), ())"
  "getBridge (stubEnv k) stubCDKArgs stubURL 0xBBBB = Inr (0xBBBB, ())"
  "getBridgeData (stubEnv 0) 0xBBBB (8, allReads) =
     (Inr \<lparr> bd_GlobalExitRootManager = 0xCCCC \<rparr>, (9, allReads))"
  "getBridgeData (stubEnv 9) 0xBBBB (8, allReads) = (Inl stubError, (9, allReads))"
  "getGER (stubEnv 0) stubCDKArgs stubURL 0xCCCC =
     Inr (\<lparr> g_gerContractInterface = unrecordedGER (stubGER 0), g_instance = 0xCCCC \<rparr>, ())"
  "watchNewLogs (stubEnv 0) stubURL
     \<lparr> cf_contractInstance = 0xCCCC, cf_contractABI = (),
       cf_blockchainFilter = \<lparr> fq_Addresses = [0xCCCC] \<rparr> \<rparr> (9, allReads) =
     Some (None, (9, allReads))"
  by (simp_all add: stubEnv_def unrecorded_def stubCall_def)

lemma broken_resolvers:
  "getRollupManager (brokenEnv RollupManagerKind) stubCDKArgs stubURL 0xAAAA =
     Inl (Error ''no contract'')"
  "kind \<noteq> RollupManagerKind \<Longrightarrow>
   getRollupManager (brokenEnv kind) stubCDKArgs stubURL 0xAAAA =
     Inr (recording (stubRollupManager 0 3), ())"
  "getBridge (brokenEnv BridgeKind) stubCDKArgs stubURL 0xBBBB = Inl (Error ''no contract'')"
  "getBridge (brokenEnv GERKind) stubCDKArgs stubURL 0xBBBB = Inr (0xBBBB, ())"
  "getBridgeData (brokenEnv kind) 0xBBBB (8, allReads) =
     (Inr \<lparr> bd_GlobalExitRootManager = 0xCCCC \<rparr>, (9, allReads))"
  "getGER (brokenEnv GERKind) stubCDKArgs stubURL 0xCCCC = Inl (Error ''no contract'')"
  by (simp_all add: brokenEnv_def stubEnv_def unrecorded_def stubCall_def)

section \<open>Fork identifiers\<close>

lemma knownForks_values:
  "map_of knownForks f = Some k \<Longrightarrow> k = etrog \<or> k = elderberry \<or> k = banana"
  by (auto simp: knownForks_def split: if_splits)

lemma bindRollupManager_handle:
  assumes "a_forkID cdkArgs = etrog \<or> a_forkID cdkArgs = elderberry \<or> a_forkID cdkArgs = banana"
    and "bindRollupManager env cdkArgs addr = Returns (Some rmArgs, None)"
  shows "\<exists>h. m_rollupManager rmArgs = Some h \<and>
           (a_forkID cdkArgs = etrog \<and>
              etrog_NewPolygonrollupmanager env (m_rollupManagerAddress rmArgs)
                (a_rpcClient cdkArgs) = Inr h \<or>
            a_forkID cdkArgs = elderberry \<and>
              elderberry_NewPolygonrollupmanager env (m_rollupManagerAddress rmArgs)
                (a_rpcClient cdkArgs) = Inr h \<or>
            a_forkID cdkArgs = banana \<and>
              banana_NewPolygonrollupmanager env (m_rollupManagerAddress rmArgs)
                (a_rpcClient cdkArgs) = Inr h)"
  using assms by (auto simp: bindRollupManager_def split: if_splits sum.splits)

lemma parseRollupManagerArgs_bind:
  "parseRollupManagerArgs env g a cdkArgs = Returns (Some rmArgs, None) \<Longrightarrow>
   \<exists>addr. bindRollupManager env cdkArgs addr = Returns (Some rmArgs, None)"
  by (auto simp: parseRollupManagerArgs_def split: option.splits)

text \<open>
  Claim C2, as amended. Let the RPC URL be given and its dial succeed. A fork identifier
  that is not empty and not a key of \<^verbatim>\<open>knownForks\<close> makes \<^verbatim>\<open>parseCDKArgs\<close> return the error
  \<^verbatim>\<open>invalid forkID\<close> and no arguments, so nothing is resolved for it. An identifier that is
  empty or absent (a \<^verbatim>\<open>nil\<close> pointer) is not looked up: \<^verbatim>\<open>parseCDKArgs\<close> accepts it with the
  fork number 0. When \<^verbatim>\<open>parseCDKArgs\<close> accepts an identifier that is not empty, the fork
  number is the one of the table, and arguments returned by \<^verbatim>\<open>parseRollupManagerArgs\<close> for
  it hold a handle that the constructor of that fork built for the address in the
  arguments: the handle is not \<^verbatim>\<open>nil\<close>.
\<close>

theorem unknown_fork_rejected:
  assumes "rpcURL a = Some url" and "dial url s = (Inr c, s')"
  shows "(forkID a = Some f \<and> f \<noteq> [] \<and> map_of knownForks f = None \<longrightarrow>
            parseCDKArgs dial a s = (Returns (None, Some invalidForkID), s')) \<and>
         (forkID a = None \<or> forkID a = Some [] \<longrightarrow>
            parseCDKArgs dial a s =
              (Returns (Some \<lparr> a_rpcURL = url, a_rpcClient = c, a_forkID = 0 \<rparr>, None), s')) \<and>
         (\<forall>cdkArgs rmArgs.
            forkID a = Some f \<and> f \<noteq> [] \<and>
            parseCDKArgs dial a s = (Returns (Some cdkArgs, None), s') \<and>
            parseRollupManagerArgs env g r cdkArgs = Returns (Some rmArgs, None) \<longrightarrow>
              map_of knownForks f = Some (a_forkID cdkArgs) \<and>
              (\<exists>h. m_rollupManager rmArgs = Some h \<and>
                 (a_forkID cdkArgs = etrog \<and>
                    etrog_NewPolygonrollupmanager env (m_rollupManagerAddress rmArgs)
                      (a_rpcClient cdkArgs) = Inr h \<or>
                  a_forkID cdkArgs = elderberry \<and>
                    elderberry_NewPolygonrollupmanager env (m_rollupManagerAddress rmArgs)
                      (a_rpcClient cdkArgs) = Inr h \<or>
                  a_forkID cdkArgs = banana \<and>
                    banana_NewPolygonrollupmanager env (m_rollupManagerAddress rmArgs)
                      (a_rpcClient cdkArgs) = Inr h)))"
proof (intro conjI impI allI)
  assume "forkID a = Some f \<and> f \<noteq> [] \<and> map_of knownForks f = None"
  with assms show "parseCDKArgs dial a s = (Returns (None, Some invalidForkID), s')"
    by (simp add: parseCDKArgs_def mustGetRPCClient_def)
next
  assume "forkID a = None \<or> forkID a = Some []"
  with assms show "parseCDKArgs dial a s =
      (Returns (Some \<lparr> a_rpcURL = url, a_rpcClient = c, a_forkID = 0 \<rparr>, None), s')"
    by (auto simp: parseCDKArgs_def mustGetRPCClient_def)
next
  fix cdkArgs rmArgs
  assume h: "forkID a = Some f \<and> f \<noteq> [] \<and>
             parseCDKArgs dial a s = (Returns (Some cdkArgs, None), s') \<and>
             parseRollupManagerArgs env g r cdkArgs = Returns (Some rmArgs, None)"
  with assms show k: "map_of knownForks f = Some (a_forkID cdkArgs)"
    by (auto simp: parseCDKArgs_def mustGetRPCClient_def split: option.splits)
  from knownForks_values[OF k]
  have "a_forkID cdkArgs = etrog \<or> a_forkID cdkArgs = elderberry \<or> a_forkID cdkArgs = banana" .
  moreover from h parseRollupManagerArgs_bind obtain addr where
    "bindRollupManager env cdkArgs addr = Returns (Some rmArgs, None)" by blast
  ultimately show "\<exists>h. m_rollupManager rmArgs = Some h \<and>
                 (a_forkID cdkArgs = etrog \<and>
                    etrog_NewPolygonrollupmanager env (m_rollupManagerAddress rmArgs)
                      (a_rpcClient cdkArgs) = Inr h \<or>
                  a_forkID cdkArgs = elderberry \<and>
                    elderberry_NewPolygonrollupmanager env (m_rollupManagerAddress rmArgs)
                      (a_rpcClient cdkArgs) = Inr h \<or>
                  a_forkID cdkArgs = banana \<and>
                    banana_NewPolygonrollupmanager env (m_rollupManagerAddress rmArgs)
                      (a_rpcClient cdkArgs) = Inr h)"
    by (rule bindRollupManager_handle)
qed

text \<open>The theorem at the identifiers \<open>feijoa\<close> (rejected), empty and absent (accepted with
  the fork number 0) and \<open>12\<close> (accepted, with the handle of the banana constructor).\<close>

theorem unknown_fork_rejected_witness:
  "map_of knownForks ''feijoa'' = None \<and>
   parseCDKArgs (DialContext (stubEnv 0)) (stubArgs stubURL ''feijoa'') (0, [])
     = (Returns (None, Some invalidForkID), (0, [])) \<and>
   parseCDKArgs (DialContext (stubEnv 0)) (stubArgs stubURL []) (0, [])
     = (Returns (Some \<lparr> a_rpcURL = stubURL, a_rpcClient = stubURL, a_forkID = 0 \<rparr>, None),
        (0, [])) \<and>
   parseCDKArgs (DialContext (stubEnv 0)) ((stubArgs stubURL []) \<lparr> forkID := None \<rparr>) (0, [])
     = (Returns (Some \<lparr> a_rpcURL = stubURL, a_rpcClient = stubURL, a_forkID = 0 \<rparr>, None),
        (0, [])) \<and>
   map_of knownForks ''12'' = Some (a_forkID stubCDKArgs) \<and>
   banana_NewPolygonrollupmanager (stubEnv 0) 0xAAAA stubURL =
     Inr (recording (stubRollupManager 0 3))"
  using unknown_fork_rejected[where a = "stubArgs stubURL ''feijoa''"
      and url = stubURL and dial = "DialContext (stubEnv 0)"
      and s = "(0, [])" and c = stubURL and s' = "(0, [])"
      and f = "''feijoa''" and env = "stubEnv 0"
      and g = "stubArgs stubURL ''feijoa''" and r = "stubArgs stubURL ''feijoa''",
      THEN conjunct1]
    unknown_fork_rejected[where a = "stubArgs stubURL []"
      and url = stubURL and dial = "DialContext (stubEnv 0)"
      and s = "(0, [])" and c = stubURL and s' = "(0, [])"
      and f = "[]" and env = "stubEnv 0"
      and g = "stubArgs stubURL []" and r = "stubArgs stubURL []",
      THEN conjunct2, THEN conjunct1]
    unknown_fork_rejected[where a = "(stubArgs stubURL []) \<lparr> forkID := None \<rparr>"
      and url = stubURL and dial = "DialContext (stubEnv 0)"
      and s = "(0, [])" and c = stubURL and s' = "(0, [])"
      and f = "[]" and env = "stubEnv 0"
      and g = "stubArgs stubURL []" and r = "stubArgs stubURL []",
      THEN conjunct2, THEN conjunct1]
    unknown_fork_rejected[where a = stubInput
      and url = stubURL and dial = "DialContext (stubEnv 0)"
      and s = "(0, [])" and c = stubURL and s' = "(0, [])"
      and f = "''12''" and env = "stubEnv 0" and g = stubInput and r = stubInput,
      THEN conjunct2, THEN conjunct2, rule_format,
      of stubCDKArgs "\<lparr> m_rollupManager = Some (recording (stubRollupManager 0 3)),
                      m_rollupManagerAddress = 0xAAAA \<rparr>"]
  by (simp add: stubEnv_prefix)
     (simp add: stubArgs_def stubInput_def stubEnv_def stubURL_def stubCDKArgs_def
        knownForks_def banana_def etrog_def elderberry_def)

text \<open>
  Claim C2 as stated fails at the empty fork identifier, which is not in the supported
  set: \<^verbatim>\<open>parseCDKArgs\<close> skips the lookup for it (\<^verbatim>\<open>len(*inputArgs.forkID) > 0\<close>) and returns
  the fork number 0 without an error, and \<^verbatim>\<open>parseRollupManagerArgs\<close>, whose switch has no
  case for 0, returns arguments with a \<^verbatim>\<open>nil\<close> handle and a \<^verbatim>\<open>nil\<close> error. It fails as well
  when the dial fails: for the unsupported identifier \<open>feijoa\<close> at a URL that cannot be
  dialled, \<^verbatim>\<open>parseCDKArgs\<close> returns no error to its caller, the process ends in
  \<^verbatim>\<open>log.Fatal\<close>.
\<close>

theorem empty_fork_accepted_counterexample:
  "parseCDKArgs (DialContext (stubEnv 0)) (stubArgs ''http://localhost:8545'' '''') (0, []) =
     (Returns (Some \<lparr> a_rpcURL = ''http://localhost:8545'',
                        a_rpcClient = ''http://localhost:8545'', a_forkID = 0 \<rparr>, None), (0, []))
   \<and>
   parseRollupManagerArgs (stubEnv 0) (stubArgs ''http://localhost:8545'' '''')
     (stubArgs ''http://localhost:8545'' '''')
     \<lparr> a_rpcURL = ''http://localhost:8545'', a_rpcClient = ''http://localhost:8545'',
       a_forkID = 0 \<rparr> =
     Returns (Some \<lparr> m_rollupManager = None, m_rollupManagerAddress = 0xAAAA \<rparr>, None)
   \<and>
   parseCDKArgs (DialContext (stubEnv 0)) (stubArgs ''unreachable'' ''feijoa'') (0, []) =
     (Fatal ''Unable to Dial RPC'' (Error ''dial tcp: connection refused''), (0, []))"
  by (simp add: parseCDKArgs_def mustGetRPCClient_def parseRollupManagerArgs_def
      bindRollupManager_def stubArgs_def stubEnv_def knownRollupManagerAddresses_def
      checkAddressArg_def etrog_def elderberry_def banana_def)

section \<open>A dial that fails\<close>

lemma parseCDKArgs_dial_failure:
  "rpcURL a = Some url \<Longrightarrow> dial url s = (Inl err, s') \<Longrightarrow>
   parseCDKArgs dial a s = (Fatal ''Unable to Dial RPC'' err, s')"
  by (simp add: parseCDKArgs_def mustGetRPCClient_def)

lemma mustGetRPCClient_dial_failure:
  "dial url s = (Inl err, s') \<Longrightarrow>
   mustGetRPCClient dial url s = (Fatal ''Unable to Dial RPC'' err, s')"
  by (simp add: mustGetRPCClient_def)

text \<open>
  Claim C9. If dialling the RPC endpoint fails, \<^verbatim>\<open>mustGetRPCClient\<close> ends the process
  through \<^verbatim>\<open>log.Fatal\<close>: its outcome is \<open>Fatal\<close>, not a returned error. So does
  \<^verbatim>\<open>parseCDKArgs\<close>, which dials first, and so does every command, whether the dial that
  fails is the one of \<^verbatim>\<open>parseCDKArgs\<close> or the second one the command makes itself: no
  caller receives the failure as an error value.
\<close>

theorem dial_failure_is_fatal:
  "(DialContext env url s = (Inl err, s') \<longrightarrow>
      mustGetRPCClient (DialContext env) url s = (Fatal ''Unable to Dial RPC'' err, s')) \<and>
   (rpcURL a = Some url \<and> DialContext env url s = (Inl err, s') \<longrightarrow>
      parseCDKArgs (DialContext env) a s = (Fatal ''Unable to Dial RPC'' err, s') \<and>
      rollupManagerListRollups env a s = Some (Fatal ''Unable to Dial RPC'' err, s') \<and>
      rollupManagerListRollupTypes env a s = Some (Fatal ''Unable to Dial RPC'' err, s') \<and>
      rollupManagerInspect env a s = (Fatal ''Unable to Dial RPC'' err, s') \<and>
      rollupManagerDump env a s = Some (Fatal ''Unable to Dial RPC'' err, s') \<and>
      gerInspect env a s = (Fatal ''Unable to Dial RPC'' err, s') \<and>
      gerDump env a s = (Fatal ''Unable to Dial RPC'' err, s') \<and>
      gerMonitor env a s = Some (Fatal ''Unable to Dial RPC'' err, s')) \<and>
   (parseCDKArgs (DialContext env) a s = (Returns (Some cdkArgs, None), s1) \<and>
    DialContext env (a_rpcURL cdkArgs) s1 = (Inl err, s2) \<longrightarrow>
      rollupManagerListRollups env a s = Some (Fatal ''Unable to Dial RPC'' err, s2) \<and>
      rollupManagerListRollupTypes env a s = Some (Fatal ''Unable to Dial RPC'' err, s2) \<and>
      rollupManagerInspect env a s = (Fatal ''Unable to Dial RPC'' err, s2) \<and>
      rollupManagerDump env a s = Some (Fatal ''Unable to Dial RPC'' err, s2) \<and>
      gerInspect env a s = (Fatal ''Unable to Dial RPC'' err, s2) \<and>
      gerDump env a s = (Fatal ''Unable to Dial RPC'' err, s2) \<and>
      gerMonitor env a s = Some (Fatal ''Unable to Dial RPC'' err, s2))"
proof (intro conjI impI)
  assume "DialContext env url s = (Inl err, s')"
  then show "mustGetRPCClient (DialContext env) url s = (Fatal ''Unable to Dial RPC'' err, s')"
    by (rule mustGetRPCClient_dial_failure)
next
  assume "rpcURL a = Some url \<and> DialContext env url s = (Inl err, s')"
  hence p: "parseCDKArgs (DialContext env) a s = (Fatal ''Unable to Dial RPC'' err, s')"
    by (simp add: parseCDKArgs_dial_failure)
  show "parseCDKArgs (DialContext env) a s = (Fatal ''Unable to Dial RPC'' err, s')"
    by (rule p)
  show "rollupManagerListRollups env a s = Some (Fatal ''Unable to Dial RPC'' err, s')"
    by (simp add: rollupManagerListRollups_def p)
  show "rollupManagerListRollupTypes env a s = Some (Fatal ''Unable to Dial RPC'' err, s')"
    by (simp add: rollupManagerListRollupTypes_def p)
  show "rollupManagerInspect env a s = (Fatal ''Unable to Dial RPC'' err, s')"
    by (simp add: rollupManagerInspect_def p)
  show "rollupManagerDump env a s = Some (Fatal ''Unable to Dial RPC'' err, s')"
    by (simp add: rollupManagerDump_def p)
  show "gerInspect env a s = (Fatal ''Unable to Dial RPC'' err, s')"
    by (simp add: gerInspect_def p)
  show "gerDump env a s = (Fatal ''Unable to Dial RPC'' err, s')"
    by (simp add: gerDump_def p)
  show "gerMonitor env a s = Some (Fatal ''Unable to Dial RPC'' err, s')"
    by (simp add: gerMonitor_def p)
next
  assume h: "parseCDKArgs (DialContext env) a s = (Returns (Some cdkArgs, None), s1) \<and>
    DialContext env (a_rpcURL cdkArgs) s1 = (Inl err, s2)"
  hence p: "parseCDKArgs (DialContext env) a s = (Returns (Some cdkArgs, None), s1)"
    and m: "mustGetRPCClient (DialContext env) (a_rpcURL cdkArgs) s1 =
              (Fatal ''Unable to Dial RPC'' err, s2)"
    by (simp_all add: mustGetRPCClient_dial_failure)
  show "rollupManagerListRollups env a s = Some (Fatal ''Unable to Dial RPC'' err, s2)"
    by (simp add: rollupManagerListRollups_def p m)
  show "rollupManagerListRollupTypes env a s = Some (Fatal ''Unable to Dial RPC'' err, s2)"
    by (simp add: rollupManagerListRollupTypes_def p m)
  show "rollupManagerInspect env a s = (Fatal ''Unable to Dial RPC'' err, s2)"
    by (simp add: rollupManagerInspect_def p m)
  show "rollupManagerDump env a s = Some (Fatal ''Unable to Dial RPC'' err, s2)"
    by (simp add: rollupManagerDump_def p m)
  show "gerInspect env a s = (Fatal ''Unable to Dial RPC'' err, s2)"
    by (simp add: gerInspect_def p m)
  show "gerDump env a s = (Fatal ''Unable to Dial RPC'' err, s2)"
    by (simp add: gerDump_def p m)
  show "gerMonitor env a s = Some (Fatal ''Unable to Dial RPC'' err, s2)"
    by (simp add: gerMonitor_def p m)
qed

lemma flaky_parseCDKArgs:
  "parseCDKArgs (DialContext flakyDialEnv) (stubArgs ''http://localhost:8545'' ''12'') (0, []) =
     (Returns (Some \<lparr> a_rpcURL = ''http://localhost:8545'',
                        a_rpcClient = ''http://localhost:8545'', a_forkID = 12 \<rparr>, None),
      (1, []))"
  by (simp add: parseCDKArgs_def mustGetRPCClient_def flakyDialEnv_def stubArgs_def
      knownForks_def banana_def)

theorem dial_failure_is_fatal_witness:
  "mustGetRPCClient (DialContext (stubEnv 0)) ''unreachable'' (0, []) =
     (Fatal ''Unable to Dial RPC'' (Error ''dial tcp: connection refused''), (0, [])) \<and>
   parseCDKArgs (DialContext (stubEnv 0)) (stubArgs ''unreachable'' ''12'') (0, []) =
     (Fatal ''Unable to Dial RPC'' (Error ''dial tcp: connection refused''), (0, [])) \<and>
   gerInspect (stubEnv 0) (stubArgs ''unreachable'' ''12'') (0, []) =
     (Fatal ''Unable to Dial RPC'' (Error ''dial tcp: connection refused''), (0, [])) \<and>
   rollupManagerDump (stubEnv 0) (stubArgs ''unreachable'' ''12'') (0, []) =
     Some (Fatal ''Unable to Dial RPC'' (Error ''dial tcp: connection refused''), (0, [])) \<and>
   gerMonitor flakyDialEnv (stubArgs ''http://localhost:8545'' ''12'') (0, []) =
     Some (Fatal ''Unable to Dial RPC'' (Error ''dial tcp: connection refused''), (2, []))"
  using dial_failure_is_fatal[of "stubEnv 0" "''unreachable''" "(0, [])"
      "Error ''dial tcp: connection refused''" "(0, [])" "stubArgs ''unreachable'' ''12''"]
    dial_failure_is_fatal[where env = flakyDialEnv and url = "''unreachable''"
      and s = "(0, [])" and err = "Error ''dial tcp: connection refused''" and s' = "(0, [])"
      and a = "stubArgs ''http://localhost:8545'' ''12''"
      and cdkArgs = "\<lparr> a_rpcURL = ''http://localhost:8545'',
                       a_rpcClient = ''http://localhost:8545'', a_forkID = 12 \<rparr>"
      and ?s1.0 = "(1, [])" and ?s2.0 = "(2, [])"]
  by (simp add: flaky_parseCDKArgs) (simp add: stubEnv_def stubArgs_def flakyDialEnv_def)

section \<open>The rollup id argument\<close>

lemma digits_le_foldl:
  "(n::nat) \<le> foldl (\<lambda>n c. n * 10 + (of_char c - 48)) n ds"
proof (induction ds arbitrary: n)
  case Nil
  then show ?case by simp
next
  case (Cons c cs)
  have "n \<le> n * 10 + (of_char c - 48)" by simp
  also have "\<dots> \<le> foldl (\<lambda>n c. n * 10 + (of_char c - 48)) (n * 10 + (of_char c - 48)) cs"
    by (rule Cons.IH)
  finally show ?case by simp
qed

lemma parseDigits_value:
  "list_all isDigit ds \<Longrightarrow>
   foldl (\<lambda>n c. n * 10 + (of_char c - 48)) n ds \<le> (2::nat) ^ 64 - 1 \<Longrightarrow>
   parseDigits ds n = Inr (foldl (\<lambda>n c. n * 10 + (of_char c - 48)) n ds)"
proof (induction ds arbitrary: n)
  case Nil
  then show ?case by simp
next
  case (Cons c cs)
  have "n * 10 + (of_char c - 48) \<le>
          foldl (\<lambda>n c. n * 10 + (of_char c - 48)) (n * 10 + (of_char c - 48)) cs"
    by (rule digits_le_foldl)
  with Cons.prems(2) have "\<not> n * 10 + (of_char c - 48) > 2 ^ 64 - 1" by simp
  with Cons show ?case by simp
qed

lemma digit_not_sign: "isDigit c \<Longrightarrow> c \<noteq> CHR ''+'' \<and> c \<noteq> CHR ''-''"
  by (auto simp: isDigit_def)

lemma Atoi_decimal:
  assumes "ds \<noteq> []" "list_all isDigit ds" "decimalValue ds < 2 ^ 63"
  shows "Atoi ds = Inr (int (decimalValue ds))"
proof -
  obtain c cs where ds: "ds = c # cs" using assms(1) by (cases ds) auto
  with assms(2) have "isDigit c" by simp
  hence sign: "c \<noteq> CHR ''+''" "c \<noteq> CHR ''-''" using digit_not_sign by auto
  have "(2::nat) ^ 63 \<le> 2 ^ 64 - 1" by simp
  with assms(3) have "foldl (\<lambda>n c. n * 10 + (of_char c - 48)) 0 ds \<le> (2::nat) ^ 64 - 1"
    unfolding decimalValue_def by linarith
  from parseDigits_value[OF assms(2) this]
  have p: "parseDigits (c # cs) 0 = Inr (decimalValue (c # cs))"
    by (simp add: decimalValue_def ds)
  have v: "\<not> 2 ^ 63 \<le> decimalValue (c # cs)" using assms(3) ds by simp
  show ?thesis
    using v unfolding Atoi_def ParseInt_def ds
    by (simp add: Let_def sign p del: parseDigits.simps)
qed

lemma Atoi_signed:
  assumes "cs \<noteq> []" "list_all isDigit cs"
  shows "decimalValue cs < 2 ^ 63 \<Longrightarrow> Atoi (CHR ''+'' # cs) = Inr (int (decimalValue cs))"
    and "decimalValue cs \<le> 2 ^ 63 \<Longrightarrow> Atoi (CHR ''-'' # cs) = Inr (- int (decimalValue cs))"
proof -
  have p: "parseDigits cs 0 = Inr (decimalValue cs)" if "decimalValue cs \<le> 2 ^ 63"
  proof -
    have "(2::nat) ^ 63 \<le> 2 ^ 64 - 1" by simp
    with that have "foldl (\<lambda>n c. n * 10 + (of_char c - 48)) 0 cs \<le> (2::nat) ^ 64 - 1"
      unfolding decimalValue_def by linarith
    from parseDigits_value[OF assms(2) this] show ?thesis by (simp add: decimalValue_def)
  qed
  show "Atoi (CHR ''+'' # cs) = Inr (int (decimalValue cs))" if "decimalValue cs < 2 ^ 63"
  proof -
    from that have "parseDigits cs 0 = Inr (decimalValue cs)" by (simp add: p)
    moreover from that have "\<not> 2 ^ 63 \<le> decimalValue cs" by simp
    ultimately show ?thesis
      using assms(1) unfolding Atoi_def ParseInt_def by (simp add: Let_def)
  qed
  show "Atoi (CHR ''-'' # cs) = Inr (- int (decimalValue cs))" if "decimalValue cs \<le> 2 ^ 63"
  proof -
    from that have "parseDigits cs 0 = Inr (decimalValue cs)" by (simp add: p)
    moreover from that have "\<not> 2 ^ 63 < decimalValue cs" by simp
    ultimately show ?thesis
      using assms(1) unfolding Atoi_def ParseInt_def by (simp add: Let_def)
  qed
qed

text \<open>\<^verbatim>\<open>strconv.Atoi\<close> returns the value of every decimal integer in the range of \<^verbatim>\<open>int\<close>.\<close>

lemma Atoi_decimalNumber:
  assumes "decimalNumber r = Some v" "- (2 ^ 63) \<le> v" "v < 2 ^ 63"
  shows "Atoi r = Inr v"
proof (cases r)
  case Nil
  with assms(1) show ?thesis by (simp add: decimalNumber_def)
next
  case (Cons c cs)
  show ?thesis
  proof (cases "c = CHR ''-''")
    case True
    with assms(1) Cons have d: "cs \<noteq> []" "list_all isDigit cs" "v = - int (decimalValue cs)"
      by (auto simp: decimalNumber_def split: if_splits)
    with assms(2) have "decimalValue cs \<le> 2 ^ 63" by simp
    from Atoi_signed(2)[OF d(1) d(2) this] show ?thesis using Cons True d(3) by simp
  next
    case False
    show ?thesis
    proof (cases "c = CHR ''+''")
      case True
      with assms(1) Cons have d: "cs \<noteq> []" "list_all isDigit cs" "v = int (decimalValue cs)"
        by (auto simp: decimalNumber_def split: if_splits)
      with assms(3) have "decimalValue cs < 2 ^ 63" by simp
      from Atoi_signed(1)[OF d(1) d(2) this] show ?thesis using Cons True d(3) by simp
    next
      case plus: False
      with assms(1) Cons False have d: "list_all isDigit r" "v = int (decimalValue r)"
        by (auto simp: decimalNumber_def split: if_splits)
      with assms(3) have "decimalValue r < 2 ^ 63" by simp
      moreover from Cons have "r \<noteq> []" by simp
      ultimately show ?thesis using Atoi_decimal[of r] d by simp
    qed
  qed
qed

lemma parseRollupID_given:
  assumes "rollupID a = Some r" "r \<noteq> []"
  shows "parseRollupID a rma c ad s =
           (case Atoi r of
              Inl err \<Rightarrow> (Returns (None, Some (rollupIDError r)), s)
            | Inr n \<Rightarrow>
                if n < 0 then (Returns (None, Some (rollupIDError r)), s)
                else (Returns (Some \<lparr> r_rollupID = word_of_int n, r_rollupChainID = c,
                                      r_rollupAddress = ad \<rparr>, None), s))"
  using assms by (simp add: parseRollupID_def rollupIDError_def split: sum.splits)

lemma parseRollupAddress_passes:
  assumes "rollupAddress ia = None \<or> rollupAddress ia = Some [] \<or>
           IsHexAddress env (the (rollupAddress ia))"
  shows "\<exists>ad. parseRollupAddress env a ia rma c s = parseRollupID a rma c ad s"
  using assms by (auto simp: parseRollupAddress_def checkAddressArg_def)

lemma parseRollupArgs_passes:
  assumes "rollupChainID a = None \<or> rollupChainID a = Some [] \<or>
           (\<exists>c\<ge>0. ParseInt (the (rollupChainID a)) = Inr c)"
  shows "\<exists>c. parseRollupArgs env a ia rma s = parseRollupAddress env a ia rma c s"
  using assms by (auto simp: parseRollupArgs_def)

text \<open>The errors of a bad chain id and of a bad address are not the error of a rejected
  rollup id: when \<^verbatim>\<open>parseRollupArgs\<close> returns that error, it comes from the section of the
  rollup id.\<close>

lemma parseRollupAddress_error:
  "parseRollupAddress env a ia rma c s = (Returns (None, Some (rollupIDError r)), s') \<Longrightarrow>
   \<exists>ad. parseRollupID a rma c ad s = (Returns (None, Some (rollupIDError r)), s')"
  by (auto simp: parseRollupAddress_def checkAddressArg_def rollupIDError_def Let_def
      split: if_splits)

lemma parseRollupArgs_error:
  "parseRollupArgs env a ia rma s = (Returns (None, Some (rollupIDError r)), s') \<Longrightarrow>
   \<exists>c. parseRollupAddress env a ia rma c s = (Returns (None, Some (rollupIDError r)), s')"
  by (auto simp: parseRollupArgs_def rollupIDError_def
      split: if_splits sum.splits option.splits)

text \<open>
  Claim C10, as amended (with a 64-bit \<^verbatim>\<open>int\<close>). Let the rollup id argument \<open>r\<close> be given.
  When the chain id and the address arguments are absent, empty or valid and \<open>r\<close> is a
  decimal integer (decimal digits with an optional sign) whose value exceeds \<open>2^32 - 1\<close>
  and is below \<open>2^63\<close>, \<^verbatim>\<open>parseRollupArgs\<close> succeeds and the \<^verbatim>\<open>rollupID\<close> field holds the value
  modulo \<open>2^32\<close>. Only a string that \<^verbatim>\<open>strconv.Atoi\<close> rejects (it is no decimal integer, or
  its value is outside the range of \<^verbatim>\<open>int\<close>) or whose value is negative is rejected with
  the error \<^verbatim>\<open>must be a valid uint32\<close>.
\<close>

theorem rollupID_reduced_modulo:
  assumes "rollupID a = Some r"
  shows "((rollupChainID a = None \<or> rollupChainID a = Some [] \<or>
             (\<exists>c\<ge>0. ParseInt (the (rollupChainID a)) = Inr c)) \<and>
          (rollupAddress ia = None \<or> rollupAddress ia = Some [] \<or>
             IsHexAddress env (the (rollupAddress ia))) \<and>
          decimalNumber r = Some v \<and> 2 ^ 32 - 1 < v \<and> v < 2 ^ 63 \<longrightarrow>
           (\<exists>args. parseRollupArgs env a ia rma s = (Returns (Some args, None), s) \<and>
                   uint (r_rollupID args) = v mod 2 ^ 32)) \<and>
         (parseRollupArgs env a ia rma s = (Returns (None, Some (rollupIDError r)), s') \<longrightarrow>
            (\<forall>n. Atoi r = Inr n \<longrightarrow> n < 0))"
proof (intro conjI impI)
  assume h: "(rollupChainID a = None \<or> rollupChainID a = Some [] \<or>
             (\<exists>c\<ge>0. ParseInt (the (rollupChainID a)) = Inr c)) \<and>
          (rollupAddress ia = None \<or> rollupAddress ia = Some [] \<or>
             IsHexAddress env (the (rollupAddress ia))) \<and>
          decimalNumber r = Some v \<and> 2 ^ 32 - 1 < v \<and> v < 2 ^ 63"
  hence r: "r \<noteq> []" by (auto simp: decimalNumber_def)
  from h have "- (2 ^ 63) \<le> v" by simp
  with h have at: "Atoi r = Inr v" using Atoi_decimalNumber by blast
  from h parseRollupArgs_passes[of a env ia rma s] obtain c where
    1: "parseRollupArgs env a ia rma s = parseRollupAddress env a ia rma c s" by blast
  from h parseRollupAddress_passes[of ia env a rma c s] obtain ad where
    2: "parseRollupAddress env a ia rma c s = parseRollupID a rma c ad s" by blast
  note 3 = parseRollupID_given[OF assms r, of rma c ad s]
  from h have "\<not> v < 0" by simp
  with 1 2 3 at have "parseRollupArgs env a ia rma s =
        (Returns (Some \<lparr> r_rollupID = word_of_int v, r_rollupChainID = c,
                          r_rollupAddress = ad \<rparr>, None), s)"
    by simp
  moreover have "uint (word_of_int v :: uint32) = v mod 2 ^ 32"
    by (simp add: uint_word_of_int)
  ultimately show "\<exists>args. parseRollupArgs env a ia rma s = (Returns (Some args, None), s) \<and>
                   uint (r_rollupID args) = v mod 2 ^ 32"
    by simp
next
  assume e: "parseRollupArgs env a ia rma s = (Returns (None, Some (rollupIDError r)), s')"
  show "\<forall>n. Atoi r = Inr n \<longrightarrow> n < 0"
  proof (cases "r = []")
    case True
    then show ?thesis by (simp add: Atoi_def ParseInt_def)
  next
    case False
    from parseRollupArgs_error[OF e] obtain c where
      "parseRollupAddress env a ia rma c s = (Returns (None, Some (rollupIDError r)), s')"
      by blast
    from parseRollupAddress_error[OF this] obtain ad where
      "parseRollupID a rma c ad s = (Returns (None, Some (rollupIDError r)), s')" by blast
    with parseRollupID_given[OF assms False, of rma c ad s] show ?thesis
      by (auto split: sum.splits if_splits)
  qed
qed

lemma decimalNumber_plus_4294967297: "decimalNumber ''+4294967297'' = Some 4294967297"
  by (simp add: decimalNumber_def isDigit_def decimalValue_def)

lemma stubRollupArgs_fields:
  "rollupID (stubRollupArgs r) = Some r"
  "rollupChainID (stubRollupArgs r) = Some []"
  "rollupAddress (stubRollupArgs r) = Some []"
  by (simp_all add: stubRollupArgs_def stubInput_def stubArgs_def)

lemma stub_rejects_minus_5:
  "parseRollupArgs (stubEnv 0) (stubRollupArgs ''-5'') (stubRollupArgs ''-5'') None (0, []) =
     (Returns (None, Some (rollupIDError ''-5'')), (0, []))"
  by (simp add: parseRollupArgs_def parseRollupAddress_def parseRollupID_def
      stubRollupArgs_fields rollupIDError_def Atoi_def ParseInt_def isDigit_def)

text \<open>The theorem at the rollup ids \<open>+4294967297\<close>, stored as 1, and \<open>-5\<close>, rejected:
  \<^verbatim>\<open>strconv.Atoi\<close> returns a negative value for it.\<close>

theorem rollupID_reduced_modulo_witness:
  "(\<exists>args. parseRollupArgs (stubEnv 0) (stubRollupArgs ''+4294967297'')
              (stubRollupArgs ''+4294967297'') None (0, []) = (Returns (Some args, None), (0, []))
           \<and> uint (r_rollupID args) = 1) \<and>
   parseRollupArgs (stubEnv 0) (stubRollupArgs ''-5'') (stubRollupArgs ''-5'') None (0, []) =
     (Returns (None, Some (rollupIDError ''-5'')), (0, [])) \<and>
   Atoi ''-5'' = Inr (- 5)"
  using rollupID_reduced_modulo[where a = "stubRollupArgs ''+4294967297''"
      and r = "''+4294967297''" and ia = "stubRollupArgs ''+4294967297''"
      and env = "stubEnv 0" and v = 4294967297 and rma = None and s = "(0, [])"
      and s' = "(0, [])", THEN conjunct1]
    rollupID_reduced_modulo[where a = "stubRollupArgs ''-5''"
      and r = "''-5''" and ia = "stubRollupArgs ''-5''"
      and env = "stubEnv 0" and v = 0 and rma = None and s = "(0, [])"
      and s' = "(0, [])", THEN conjunct2]
  by (simp add: stubRollupArgs_fields decimalNumber_plus_4294967297 stub_rejects_minus_5
      Atoi_def ParseInt_def isDigit_def)

text \<open>
  Claim C10 as stated fails. A string of decimal digits whose value \<open>2^63\<close> does not fit
  in an \<^verbatim>\<open>int\<close> is numeric and not negative, and it is rejected with the error
  \<^verbatim>\<open>must be a valid uint32\<close>. And with a chain id argument that is no number, the rollup id
  \<open>4294967297\<close> does not make \<^verbatim>\<open>parseRollupArgs\<close> succeed: the error of the chain id is
  returned.
\<close>

lemma digits_2_63:
  "list_all isDigit ''9223372036854775808'' \<and>
   decimalValue ''9223372036854775808'' = 9223372036854775808"
  by (simp add: isDigit_def decimalValue_def)

theorem rollupID_out_of_range_counterexample:
  "list_all isDigit ''9223372036854775808'' \<and>
   decimalValue ''9223372036854775808'' = 2 ^ 63 \<and>
   fst (parseRollupArgs (stubEnv 0) (stubRollupArgs ''9223372036854775808'')
          (stubRollupArgs ''9223372036854775808'') None (0, [])) =
     Returns (None, Some (Error
       ''invalid rollupID: 9223372036854775808, it must be a valid uint32'')) \<and>
   fst (parseRollupArgs (stubEnv 0)
          ((stubRollupArgs ''4294967297'') \<lparr> rollupChainID := Some ''abc'' \<rparr>)
          (stubRollupArgs ''4294967297'') None (0, [])) =
     Returns (None, Some (Error
       ''invalid rollupChainID: 4294967297, it must be a valid uint64''))"
  by (simp add: digits_2_63 parseRollupArgs_def parseRollupAddress_def parseRollupID_def
      stubRollupArgs_def stubInput_def stubArgs_def Atoi_def ParseInt_def isDigit_def)

section \<open>The chain walk of the GER commands\<close>

lemma getRollupManagerData_BridgeAddress:
  "getRollupManagerData rm s = ((Some d, None), s') \<Longrightarrow>
   \<exists>sa sb. rm_BridgeAddress rm sa = (Inr (rmd_BridgeAddress d), sb)"
  by (auto simp: getRollupManagerData_def split: prod.splits sum.splits) blast

lemma getRollupManagerData_recorded:
  "getRollupManagerData (recording h) (s, calls) = ((Some d, None), (s', calls')) \<Longrightarrow>
   calls' = calls @ allReads"
  by (auto simp: getRollupManagerData_def recording_def recorded_def allReads_def
      split: prod.splits sum.splits)

text \<open>
  Claim C3, as amended. The discovery of the bridge is a full assembly of the rollup
  manager's snapshot, in \<^verbatim>\<open>gerInspect\<close>, \<^verbatim>\<open>gerDump\<close> and \<^verbatim>\<open>gerMonitor\<close> alike: once the rollup
  manager is resolved, each of the eight reads of \<^verbatim>\<open>getRollupManagerData\<close> is on the path
  of the walk, and the first of them that fails, at whatever position of the eight, ends
  the command with the error of that read, in the state that read left.
\<close>

theorem discovery_is_full_assembly:
  assumes pre1: "parseCDKArgs (DialContext env) a s = (Returns (Some cdkArgs, None), s1)"
    and pre2: "mustGetRPCClient (DialContext env) (a_rpcURL cdkArgs) s1 = (Returns rpcClient, s2)"
    and pre3: "parseRollupManagerArgs env a a cdkArgs = Returns (Some rmArgs, None)"
    and res: "getRollupManager env cdkArgs rpcClient (m_rollupManagerAddress rmArgs)
                = Inr (rm, rmABI)"
    and fail: "firstFailure (rollupManagerReads rm) 1 s2 = Some (n, e, s3)"
  shows "n \<in> {1..8} \<and>
         gerInspect env a s = (Returns (None, Some e), s3) \<and>
         gerDump env a s = (Returns (None, Some e), s3) \<and>
         gerMonitor env a s = Some (Returns (None, Some e), s3)"
proof -
  from firstFailure_position[OF fail] have n: "n \<in> {1..8}"
    by (simp add: rollupManagerReads_def)
  note d = getRollupManagerData_failure[OF fail]
  have "gerInspect env a s = (Returns (None, Some e), s3)"
    by (simp add: gerInspect_def pre1 pre2 pre3 res d)
  moreover have "gerDump env a s = (Returns (None, Some e), s3)"
    by (simp add: gerDump_def pre1 pre2 pre3 res d)
  moreover have "gerMonitor env a s = Some (Returns (None, Some e), s3)"
    by (simp add: gerMonitor_def pre1 pre2 pre3 res d)
  ultimately show ?thesis using n by simp
qed

theorem discovery_is_full_assembly_witness:
  "gerInspect (stubEnv 5) stubInput (0, []) =
     (Returns (None, Some stubError),
      (5, [CallPol, CallBridgeAddress, CallRollupCount, CallGetBatchFee,
           CallTotalSequencedBatches])) \<and>
   gerMonitor (stubEnv 5) stubInput (0, []) =
     Some (Returns (None, Some stubError),
      (5, [CallPol, CallBridgeAddress, CallRollupCount, CallGetBatchFee,
           CallTotalSequencedBatches]))"
  using discovery_is_full_assembly[OF stubEnv_prefix(1)[of 5] stubEnv_prefix(2)[of 5]
      stubEnv_prefix(3)[of 5],
      where rm = "recording (stubRollupManager 5 3)" and rmABI = "()" and n = 5
      and e = stubError
      and ?s3.0 = "(5, [CallPol, CallBridgeAddress, CallRollupCount, CallGetBatchFee,
           CallTotalSequencedBatches])"]
  by (simp add: stub_firstFailure_5) (simp add: stubEnv_def)

text \<open>
  Claim C3 as stated fails: in a run of the monitor command, which asks for no snapshot of
  the rollup manager, the calls made on the rollup manager are the eight reads of the
  full assembly, not the single read of the bridge address.
\<close>

theorem discovery_reads_everything_counterexample:
  "gerMonitor (stubEnv 0) stubInput (0, []) = Some (Returns (None, None), (9, allReads)) \<and>
   allReads \<noteq> [CallBridgeAddress]"
  by (simp add: stub_gerMonitor) (simp add: allReads_def)

text \<open>
  Claim C6 fails on the code: \<^verbatim>\<open>rollupManagerMonitor\<close> panics with \<^verbatim>\<open>not implemented\<close> for
  every environment, argument and state, before it resolves anything and without handing
  anything to the event monitor; \<^verbatim>\<open>gerMonitor\<close>, in an environment where every step
  succeeds, reaches the watch and returns what the watch returns.
\<close>

theorem rollupManagerMonitor_not_implemented:
  "rollupManagerMonitor env a s = Some (Panic ''not implemented'', s) \<and>
   gerMonitor (stubEnv 0) stubInput (0, []) = Some (Returns (None, None), (9, allReads))"
  by (simp add: rollupManagerMonitor_def stub_gerMonitor)

text \<open>
  Claim C7. Let the arguments be parsed and the client dialled. In \<^verbatim>\<open>gerInspect\<close>, and in
  \<^verbatim>\<open>gerDump\<close> and \<^verbatim>\<open>gerMonitor\<close>, which walk the same chain, the bridge is resolved at the \<^verbatim>\<open>BridgeAddress\<close> field of the rollup manager's snapshot, which is a
  value the rollup manager's \<^verbatim>\<open>BridgeAddress\<close> read returned, and the GER at the
  \<^verbatim>\<open>GlobalExitRootManager\<close> field of what \<^verbatim>\<open>getBridgeData\<close> returned for that bridge: the
  outcome depends on the resolvers at these addresses only. Each step of the walk that
  fails (resolving the rollup manager, reading it, resolving the bridge, reading it,
  resolving the GER) ends the command with the error of that step; when all succeed
  \<^verbatim>\<open>gerInspect\<close> and \<^verbatim>\<open>gerDump\<close> print what \<^verbatim>\<open>getGERData\<close> returns for the GER handle, and
  \<^verbatim>\<open>gerMonitor\<close> watches the logs of the GER address with the instance and the ABI of that
  handle.
\<close>

theorem chain_walk_addresses:
  assumes pre1: "parseCDKArgs (DialContext env) a s = (Returns (Some cdkArgs, None), s1)"
    and pre2: "mustGetRPCClient (DialContext env) (a_rpcURL cdkArgs) s1 = (Returns rpcClient, s2)"
    and pre3: "parseRollupManagerArgs env a a cdkArgs = Returns (Some rmArgs, None)"
  shows
   "(getRollupManager env cdkArgs rpcClient (m_rollupManagerAddress rmArgs) = Inl e \<longrightarrow>
       gerInspect env a s = (Returns (None, Some e), s2) \<and>
       gerDump env a s = (Returns (None, Some e), s2) \<and>
       gerMonitor env a s = Some (Returns (None, Some e), s2)) \<and>
    (getRollupManager env cdkArgs rpcClient (m_rollupManagerAddress rmArgs) = Inr (rm, rmABI)
     \<longrightarrow>
       (getRollupManagerData rm s2 = ((None, Some e), s3) \<longrightarrow>
          gerInspect env a s = (Returns (None, Some e), s3) \<and>
          gerDump env a s = (Returns (None, Some e), s3) \<and>
          gerMonitor env a s = Some (Returns (None, Some e), s3)) \<and>
       (getRollupManagerData rm s2 = ((Some d, None), s3) \<longrightarrow>
          (\<exists>sa sb. rm_BridgeAddress rm sa = (Inr (rmd_BridgeAddress d), sb)) \<and>
          (getBridge env cdkArgs rpcClient (rmd_BridgeAddress d) = Inl e \<longrightarrow>
             gerInspect env a s = (Returns (None, Some e), s3) \<and>
             gerDump env a s = (Returns (None, Some e), s3) \<and>
             gerMonitor env a s = Some (Returns (None, Some e), s3)) \<and>
          (getBridge env cdkArgs rpcClient (rmd_BridgeAddress d) = Inr (bridge, bridgeABI)
           \<longrightarrow>
             (getBridgeData env bridge s3 = (Inl e, s4) \<longrightarrow>
                gerInspect env a s = (Returns (None, Some e), s4) \<and>
                gerDump env a s = (Returns (None, Some e), s4) \<and>
                gerMonitor env a s = Some (Returns (None, Some e), s4)) \<and>
             (getBridgeData env bridge s3 = (Inr bd, s4) \<longrightarrow>
                (getGER env cdkArgs rpcClient (bd_GlobalExitRootManager bd) = Inl e \<longrightarrow>
                   gerInspect env a s = (Returns (None, Some e), s4) \<and>
                   gerDump env a s = (Returns (None, Some e), s4) \<and>
                   gerMonitor env a s = Some (Returns (None, Some e), s4)) \<and>
                (getGER env cdkArgs rpcClient (bd_GlobalExitRootManager bd) = Inr (g, gerABI)
                 \<longrightarrow>
                   (getGERData (g_gerContractInterface g) s4 = ((data, None), s5) \<longrightarrow>
                      gerInspect env a s = (Returns (Some data, None), s5) \<and>
                      gerDump env a s = (Returns (Some \<lparr> gdd_Data = data \<rparr>, None), s5)) \<and>
                   (watchNewLogs env rpcClient
                      \<lparr> cf_contractInstance = g_instance g, cf_contractABI = gerABI,
                        cf_blockchainFilter =
                          \<lparr> fq_Addresses = [bd_GlobalExitRootManager bd] \<rparr> \<rparr> s4
                      = Some (result, s6) \<longrightarrow>
                      gerMonitor env a s = Some (Returns (None, result), s6)))))))"
proof (intro conjI impI)
  assume "getRollupManagerData rm s2 = ((Some d, None), s3)"
  then show "\<exists>sa sb. rm_BridgeAddress rm sa = (Inr (rmd_BridgeAddress d), sb)"
    by (rule getRollupManagerData_BridgeAddress)
next
  assume "getRollupManager env cdkArgs rpcClient (m_rollupManagerAddress rmArgs) = Inr (rm, rmABI)"
    "getRollupManagerData rm s2 = ((Some d, None), s3)"
    "getBridge env cdkArgs rpcClient (rmd_BridgeAddress d) = Inr (bridge, bridgeABI)"
    "getBridgeData env bridge s3 = (Inr bd, s4)"
    "getGER env cdkArgs rpcClient (bd_GlobalExitRootManager bd) = Inr (g, gerABI)"
    "watchNewLogs env rpcClient
                      \<lparr> cf_contractInstance = g_instance g, cf_contractABI = gerABI,
                        cf_blockchainFilter =
                          \<lparr> fq_Addresses = [bd_GlobalExitRootManager bd] \<rparr> \<rparr> s4
                      = Some (result, s6)"
  then show "gerMonitor env a s = Some (Returns (None, result), s6)"
    by (cases result) (simp_all add: gerMonitor_def pre1 pre2 pre3)
qed (simp_all add: gerInspect_def gerDump_def gerMonitor_def pre1 pre2 pre3)

theorem chain_walk_addresses_witness:
  "gerInspect (brokenEnv RollupManagerKind) stubInput (0, []) =
     (Returns (None, Some (Error ''no contract'')), (0, [])) \<and>
   gerInspect (stubEnv 3) stubInput (0, []) =
     (Returns (None, Some stubError), (3, [CallPol, CallBridgeAddress, CallRollupCount])) \<and>
   gerInspect (brokenEnv BridgeKind) stubInput (0, []) =
     (Returns (None, Some (Error ''no contract'')), (8, allReads)) \<and>
   gerInspect (stubEnv 9) stubInput (0, []) =
     (Returns (None, Some stubError), (9, allReads)) \<and>
   gerInspect (brokenEnv GERKind) stubInput (0, []) =
     (Returns (None, Some (Error ''no contract'')), (9, allReads)) \<and>
   gerInspect (stubEnv 0) stubInput (0, []) =
     (Returns (Some (Some \<lparr> gd_BridgeAddress = 0xBBBB, gd_DepositCount = 7,
          gd_GetLastGlobalExitRoot = 1, gd_Root = 2, gd_LastMainnetExitRoot = 3,
          gd_LastRollupExitRoot = 4, gd_RollupManager = 0xAAAA \<rparr>), None), (16, allReads)) \<and>
   gerMonitor (stubEnv 0) stubInput (0, []) = Some (Returns (None, None), (9, allReads))"
proof (intro conjI)
  show "gerInspect (brokenEnv RollupManagerKind) stubInput (0, []) =
     (Returns (None, Some (Error ''no contract'')), (0, []))"
    using chain_walk_addresses[OF brokenEnv_prefix(1)[of RollupManagerKind] brokenEnv_prefix(2)[of RollupManagerKind]
        brokenEnv_prefix(3)[of RollupManagerKind], where e = "Error ''no contract''"
        and rm = "recording (stubRollupManager 0 3)" and rmABI = "()" and ?s3.0 = "(8, allReads)"
        and d = "\<lparr> rmd_Pol = 0x1111, rmd_BridgeAddress = 0xBBBB, rmd_RollupCount = 3,
               rmd_BatchFee = 100, rmd_TotalSequencedBatches = 20,
               rmd_TotalVerifiedBatches = 10, rmd_LastAggregationTimestamp = 1700000000,
               rmd_LastDeactivatedEmergencyStateTimestamp = 0 \<rparr>"
        and bridge = "0xBBBB" and bridgeABI = "()" and ?s4.0 = "(9, allReads)"
        and bd = "\<lparr> bd_GlobalExitRootManager = 0xCCCC \<rparr>"
        and g = "\<lparr> g_gerContractInterface = unrecordedGER (stubGER 0),
                   g_instance = 0xCCCC \<rparr>"
        and gerABI = "()" and ?s5.0 = "(16, allReads)"
        and result = None and ?s6.0 = "(9, allReads)"
        and data = "Some \<lparr> gd_BridgeAddress = 0xBBBB, gd_DepositCount = 7,
          gd_GetLastGlobalExitRoot = 1, gd_Root = 2, gd_LastMainnetExitRoot = 3,
          gd_LastRollupExitRoot = 4, gd_RollupManager = 0xAAAA \<rparr>"]
    by (simp add: broken_resolvers)
  show "gerInspect (stubEnv 3) stubInput (0, []) =
     (Returns (None, Some stubError), (3, [CallPol, CallBridgeAddress, CallRollupCount]))"
    using chain_walk_addresses[OF stubEnv_prefix(1)[of 3] stubEnv_prefix(2)[of 3]
        stubEnv_prefix(3)[of 3], where e = "stubError"
        and rm = "recording (stubRollupManager 3 3)" and rmABI = "()" and ?s3.0 = "(3, [CallPol, CallBridgeAddress, CallRollupCount])"
        and d = "\<lparr> rmd_Pol = 0x1111, rmd_BridgeAddress = 0xBBBB, rmd_RollupCount = 3,
               rmd_BatchFee = 100, rmd_TotalSequencedBatches = 20,
               rmd_TotalVerifiedBatches = 10, rmd_LastAggregationTimestamp = 1700000000,
               rmd_LastDeactivatedEmergencyStateTimestamp = 0 \<rparr>"
        and bridge = "0xBBBB" and bridgeABI = "()" and ?s4.0 = "(9, allReads)"
        and bd = "\<lparr> bd_GlobalExitRootManager = 0xCCCC \<rparr>"
        and g = "\<lparr> g_gerContractInterface = unrecordedGER (stubGER 0),
                   g_instance = 0xCCCC \<rparr>"
        and gerABI = "()" and ?s5.0 = "(16, allReads)"
        and result = None and ?s6.0 = "(9, allReads)"
        and data = "Some \<lparr> gd_BridgeAddress = 0xBBBB, gd_DepositCount = 7,
          gd_GetLastGlobalExitRoot = 1, gd_Root = 2, gd_LastMainnetExitRoot = 3,
          gd_LastRollupExitRoot = 4, gd_RollupManager = 0xAAAA \<rparr>"]
    by (simp add: stub_resolvers stub_getRollupManagerData_3)
  show "gerInspect (brokenEnv BridgeKind) stubInput (0, []) =
     (Returns (None, Some (Error ''no contract'')), (8, allReads))"
    using chain_walk_addresses[OF brokenEnv_prefix(1)[of BridgeKind] brokenEnv_prefix(2)[of BridgeKind]
        brokenEnv_prefix(3)[of BridgeKind], where e = "Error ''no contract''"
        and rm = "recording (stubRollupManager 0 3)" and rmABI = "()" and ?s3.0 = "(8, allReads)"
        and d = "\<lparr> rmd_Pol = 0x1111, rmd_BridgeAddress = 0xBBBB, rmd_RollupCount = 3,
               rmd_BatchFee = 100, rmd_TotalSequencedBatches = 20,
               rmd_TotalVerifiedBatches = 10, rmd_LastAggregationTimestamp = 1700000000,
               rmd_LastDeactivatedEmergencyStateTimestamp = 0 \<rparr>"
        and bridge = "0xBBBB" and bridgeABI = "()" and ?s4.0 = "(9, allReads)"
        and bd = "\<lparr> bd_GlobalExitRootManager = 0xCCCC \<rparr>"
        and g = "\<lparr> g_gerContractInterface = unrecordedGER (stubGER 0),
                   g_instance = 0xCCCC \<rparr>"
        and gerABI = "()" and ?s5.0 = "(16, allReads)"
        and result = None and ?s6.0 = "(9, allReads)"
        and data = "Some \<lparr> gd_BridgeAddress = 0xBBBB, gd_DepositCount = 7,
          gd_GetLastGlobalExitRoot = 1, gd_Root = 2, gd_LastMainnetExitRoot = 3,
          gd_LastRollupExitRoot = 4, gd_RollupManager = 0xAAAA \<rparr>"]
    by (simp add: broken_resolvers stub_getRollupManagerData)
  show "gerInspect (stubEnv 9) stubInput (0, []) =
     (Returns (None, Some stubError), (9, allReads))"
    using chain_walk_addresses[OF stubEnv_prefix(1)[of 9] stubEnv_prefix(2)[of 9]
        stubEnv_prefix(3)[of 9], where e = "stubError"
        and rm = "recording (stubRollupManager 9 3)" and rmABI = "()" and ?s3.0 = "(8, allReads)"
        and d = "\<lparr> rmd_Pol = 0x1111, rmd_BridgeAddress = 0xBBBB, rmd_RollupCount = 3,
               rmd_BatchFee = 100, rmd_TotalSequencedBatches = 20,
               rmd_TotalVerifiedBatches = 10, rmd_LastAggregationTimestamp = 1700000000,
               rmd_LastDeactivatedEmergencyStateTimestamp = 0 \<rparr>"
        and bridge = "0xBBBB" and bridgeABI = "()" and ?s4.0 = "(9, allReads)"
        and bd = "\<lparr> bd_GlobalExitRootManager = 0xCCCC \<rparr>"
        and g = "\<lparr> g_gerContractInterface = unrecordedGER (stubGER 0),
                   g_instance = 0xCCCC \<rparr>"
        and gerABI = "()" and ?s5.0 = "(16, allReads)"
        and result = None and ?s6.0 = "(9, allReads)"
        and data = "Some \<lparr> gd_BridgeAddress = 0xBBBB, gd_DepositCount = 7,
          gd_GetLastGlobalExitRoot = 1, gd_Root = 2, gd_LastMainnetExitRoot = 3,
          gd_LastRollupExitRoot = 4, gd_RollupManager = 0xAAAA \<rparr>"]
    by (simp add: stub_resolvers stub_getRollupManagerData_9)
  show "gerInspect (brokenEnv GERKind) stubInput (0, []) =
     (Returns (None, Some (Error ''no contract'')), (9, allReads))"
    using chain_walk_addresses[OF brokenEnv_prefix(1)[of GERKind] brokenEnv_prefix(2)[of GERKind]
        brokenEnv_prefix(3)[of GERKind], where e = "Error ''no contract''"
        and rm = "recording (stubRollupManager 0 3)" and rmABI = "()" and ?s3.0 = "(8, allReads)"
        and d = "\<lparr> rmd_Pol = 0x1111, rmd_BridgeAddress = 0xBBBB, rmd_RollupCount = 3,
               rmd_BatchFee = 100, rmd_TotalSequencedBatches = 20,
               rmd_TotalVerifiedBatches = 10, rmd_LastAggregationTimestamp = 1700000000,
               rmd_LastDeactivatedEmergencyStateTimestamp = 0 \<rparr>"
        and bridge = "0xBBBB" and bridgeABI = "()" and ?s4.0 = "(9, allReads)"
        and bd = "\<lparr> bd_GlobalExitRootManager = 0xCCCC \<rparr>"
        and g = "\<lparr> g_gerContractInterface = unrecordedGER (stubGER 0),
                   g_instance = 0xCCCC \<rparr>"
        and gerABI = "()" and ?s5.0 = "(16, allReads)"
        and result = None and ?s6.0 = "(9, allReads)"
        and data = "Some \<lparr> gd_BridgeAddress = 0xBBBB, gd_DepositCount = 7,
          gd_GetLastGlobalExitRoot = 1, gd_Root = 2, gd_LastMainnetExitRoot = 3,
          gd_LastRollupExitRoot = 4, gd_RollupManager = 0xAAAA \<rparr>"]
    by (simp add: broken_resolvers stub_getRollupManagerData)
  show "gerInspect (stubEnv 0) stubInput (0, []) =
     (Returns (Some (Some \<lparr> gd_BridgeAddress = 0xBBBB, gd_DepositCount = 7,
          gd_GetLastGlobalExitRoot = 1, gd_Root = 2, gd_LastMainnetExitRoot = 3,
          gd_LastRollupExitRoot = 4, gd_RollupManager = 0xAAAA \<rparr>), None), (16, allReads))"
    using chain_walk_addresses[OF stubEnv_prefix(1)[of 0] stubEnv_prefix(2)[of 0]
        stubEnv_prefix(3)[of 0], where e = "stubError"
        and rm = "recording (stubRollupManager 0 3)" and rmABI = "()" and ?s3.0 = "(8, allReads)"
        and d = "\<lparr> rmd_Pol = 0x1111, rmd_BridgeAddress = 0xBBBB, rmd_RollupCount = 3,
               rmd_BatchFee = 100, rmd_TotalSequencedBatches = 20,
               rmd_TotalVerifiedBatches = 10, rmd_LastAggregationTimestamp = 1700000000,
               rmd_LastDeactivatedEmergencyStateTimestamp = 0 \<rparr>"
        and bridge = "0xBBBB" and bridgeABI = "()" and ?s4.0 = "(9, allReads)"
        and bd = "\<lparr> bd_GlobalExitRootManager = 0xCCCC \<rparr>"
        and g = "\<lparr> g_gerContractInterface = unrecordedGER (stubGER 0),
                   g_instance = 0xCCCC \<rparr>"
        and gerABI = "()" and ?s5.0 = "(16, allReads)"
        and result = None and ?s6.0 = "(9, allReads)"
        and data = "Some \<lparr> gd_BridgeAddress = 0xBBBB, gd_DepositCount = 7,
          gd_GetLastGlobalExitRoot = 1, gd_Root = 2, gd_LastMainnetExitRoot = 3,
          gd_LastRollupExitRoot = 4, gd_RollupManager = 0xAAAA \<rparr>"]
    by (simp add: stub_resolvers stub_getRollupManagerData stub_getGERData)
  show "gerMonitor (stubEnv 0) stubInput (0, []) = Some (Returns (None, None), (9, allReads))"
    using chain_walk_addresses[OF stubEnv_prefix(1)[of 0] stubEnv_prefix(2)[of 0]
        stubEnv_prefix(3)[of 0], where e = "stubError"
        and rm = "recording (stubRollupManager 0 3)" and rmABI = "()" and ?s3.0 = "(8, allReads)"
        and d = "\<lparr> rmd_Pol = 0x1111, rmd_BridgeAddress = 0xBBBB, rmd_RollupCount = 3,
               rmd_BatchFee = 100, rmd_TotalSequencedBatches = 20,
               rmd_TotalVerifiedBatches = 10, rmd_LastAggregationTimestamp = 1700000000,
               rmd_LastDeactivatedEmergencyStateTimestamp = 0 \<rparr>"
        and bridge = "0xBBBB" and bridgeABI = "()" and ?s4.0 = "(9, allReads)"
        and bd = "\<lparr> bd_GlobalExitRootManager = 0xCCCC \<rparr>"
        and g = "\<lparr> g_gerContractInterface = unrecordedGER (stubGER 0),
                   g_instance = 0xCCCC \<rparr>"
        and gerABI = "()" and ?s5.0 = "(16, allReads)"
        and result = None and ?s6.0 = "(9, allReads)"
        and data = "Some \<lparr> gd_BridgeAddress = 0xBBBB, gd_DepositCount = 7,
          gd_GetLastGlobalExitRoot = 1, gd_Root = 2, gd_LastMainnetExitRoot = 3,
          gd_LastRollupExitRoot = 4, gd_RollupManager = 0xAAAA \<rparr>"]
    by (simp add: stub_resolvers stub_getRollupManagerData)
qed

section \<open>The event monitor\<close>

lemma watch_append: "watch abi f (xs @ ys) = watch abi f xs @ watch abi f ys"
  by (induction xs) simp_all

text \<open>
  Claim C8, on the monitor modelled from the specification. For every log entry that
  matches the address filter, wherever it stands among the entries delivered: if no event
  of the ABI has its topic signature it adds nothing to the output; if an event has it
  and the entry does not decode, it adds one decode error for that entry; if it decodes,
  it adds one decoded event. In each case the entries delivered after it are still
  processed.
\<close>

theorem watch_decode_policy:
  assumes "le_Address entry \<in> set (fq_Addresses f)"
  shows "(matchingEvent abi entry = None \<longrightarrow>
            watch abi f (before @ entry # after) = watch abi f before @ watch abi f after) \<and>
         (matchingEvent abi entry = Some ev \<and> ed_Decode ev entry = Inl err \<longrightarrow>
            watch abi f (before @ entry # after) =
              watch abi f before @ [DecodeError entry err] @ watch abi f after) \<and>
         (matchingEvent abi entry = Some ev \<and> ed_Decode ev entry = Inr arguments \<longrightarrow>
            watch abi f (before @ entry # after) =
              watch abi f before @ [Decoded (toDecodedEvent ev entry arguments)]
                @ watch abi f after)"
  using assms by (simp add: watch_append watchEntry_def)

lemma stub_matching:
  "matchingEvent stubABI (stubLog [0xDA61, 5, 6] 0) = Some (stubABI ! 0)"
  "matchingEvent stubABI (stubLog [0xDA61] 1) = Some (stubABI ! 0)"
  "matchingEvent stubABI (stubLog [0x9999] 2) = None"
  by (simp_all add: matchingEvent_def stubABI_def stubLog_def)

lemma stub_decoding:
  "le_Address (stubLog topics i) \<in> set (fq_Addresses \<lparr> fq_Addresses = [0xCCCC] \<rparr>)"
  "ed_Decode (stubABI ! 0) (stubLog [0xDA61, 5, 6] 0) =
     Inr [(''mainnetExitRoot'', 1), (''rollupExitRoot'', 2)]"
  "ed_Decode (stubABI ! 0) (stubLog [0xDA61] 1) = Inl (Error ''topic count mismatch'')"
  "toDecodedEvent (stubABI ! 0) (stubLog [0xDA61, 5, 6] 0)
     [(''mainnetExitRoot'', 1), (''rollupExitRoot'', 2)] =
   \<lparr> de_Name = ''UpdateL1InfoTree'', de_Address = 0xCCCC, de_BlockNumber = 100,
     de_Index = 0, de_Arguments = [(''mainnetExitRoot'', 1), (''rollupExitRoot'', 2)] \<rparr>"
  by (simp_all add: stubABI_def stubLog_def toDecodedEvent_def)

theorem watch_decode_policy_witness:
  "watch stubABI \<lparr> fq_Addresses = [0xCCCC] \<rparr>
     [stubLog [0xDA61, 5, 6] 0, stubLog [0xDA61] 1, stubLog [0x9999] 2] =
   [Decoded \<lparr> de_Name = ''UpdateL1InfoTree'', de_Address = 0xCCCC, de_BlockNumber = 100,
               de_Index = 0,
               de_Arguments = [(''mainnetExitRoot'', 1), (''rollupExitRoot'', 2)] \<rparr>,
    DecodeError (stubLog [0xDA61] 1) (Error ''topic count mismatch'')]"
proof -
  let ?f = "\<lparr> fq_Addresses = [0xCCCC] \<rparr>"
  let ?e1 = "stubLog [0xDA61, 5, 6] 0" and ?e2 = "stubLog [0xDA61] 1"
    and ?e3 = "stubLog [0x9999] 2"
  have w1: "watch stubABI ?f ([] @ ?e1 # [?e2, ?e3]) =
              watch stubABI ?f [] @
                [Decoded (toDecodedEvent (stubABI ! 0) ?e1
                   [(''mainnetExitRoot'', 1), (''rollupExitRoot'', 2)])] @
                watch stubABI ?f [?e2, ?e3]"
    using watch_decode_policy[OF stub_decoding(1), THEN conjunct2, THEN conjunct2]
      stub_matching(1) stub_decoding(2)
    by blast
  have w2: "watch stubABI ?f ([] @ ?e2 # [?e3]) =
              watch stubABI ?f [] @ [DecodeError ?e2 (Error ''topic count mismatch'')] @
                watch stubABI ?f [?e3]"
    using watch_decode_policy[OF stub_decoding(1), THEN conjunct2, THEN conjunct1]
      stub_matching(2) stub_decoding(3)
    by blast
  have w3: "watch stubABI ?f ([] @ ?e3 # []) = watch stubABI ?f [] @ watch stubABI ?f []"
    using watch_decode_policy[OF stub_decoding(1), THEN conjunct1] stub_matching(3)
    by blast
  have "watch stubABI ?f [?e1, ?e2, ?e3] =
          [Decoded (toDecodedEvent (stubABI ! 0) ?e1
             [(''mainnetExitRoot'', 1), (''rollupExitRoot'', 2)]),
           DecodeError ?e2 (Error ''topic count mismatch'')]"
    using w1 w2 w3 by (simp only: append_Nil watch.simps(1) append_Cons append_Nil2)
  thus ?thesis by (simp only: stub_decoding(4))
qed

end
